theory Spec2Isabelle
  imports Main
begin

section \<open>JavaScript values\<close>

text \<open>
  The manifests are JSON-like documents. A string is the list of its code units (units
  below 256), an object is the list of its own properties in property order, a number is
  an integer (the code only tests numbers for truthiness and type). Inherited members
  (methods of the prototypes) are not part of the model.
\<close>

datatype jsval =
    JUndefined
  | JNull
  | JBool bool
  | JNum int
  | JStr string
  | JArr "jsval list"
  | JObj "(string \<times> jsval) list"

datatype jserr =
    Error string
  | TypeError string
  | ReferenceError string
  | LibError string
  | Unmodelled string

datatype jstype = TUndefined | TObject | TBoolean | TNumber | TString

definition andThen :: "'e + 'a \<Rightarrow> ('a \<Rightarrow> 'e + 'b) \<Rightarrow> 'e + 'b" where
  "andThen m f = (case m of Inl e \<Rightarrow> Inl e | Inr x \<Rightarrow> f x)"

fun truthy :: "jsval \<Rightarrow> bool" where
  "truthy JUndefined = False"
| "truthy JNull = False"
| "truthy (JBool b) = b"
| "truthy (JNum n) = (n \<noteq> 0)"
| "truthy (JStr s) = (s \<noteq> [])"
| "truthy (JArr xs) = True"
| "truthy (JObj kvs) = True"

fun typeof :: "jsval \<Rightarrow> jstype" where
  "typeof JUndefined = TUndefined"
| "typeof JNull = TObject"
| "typeof (JBool b) = TBoolean"
| "typeof (JNum n) = TNumber"
| "typeof (JStr s) = TString"
| "typeof (JArr xs) = TObject"
| "typeof (JObj kvs) = TObject"

definition digit_char :: "nat \<Rightarrow> char" where
  "digit_char d = ''0123456789'' ! d"

function show_nat :: "nat \<Rightarrow> string" where
  "show_nat n = (if n < 10 then [digit_char n] else show_nat (n div 10) @ [digit_char (n mod 10)])"
  by pat_completeness auto
termination
  by (relation "measure id") auto

declare show_nat.simps [simp del]

definition show_int :: "int \<Rightarrow> string" where
  "show_int i = (if i < 0 then CHR ''-'' # show_nat (nat (- i)) else show_nat (nat i))"

text \<open>\<open>o[k] = v\<close> on an own-property list: an existing key keeps its place, a new key
  goes to the end (keys that are array indices, which JavaScript orders first, are not
  used as property names by the code modelled here).\<close>

definition aset :: "'k \<Rightarrow> 'v \<Rightarrow> ('k \<times> 'v) list \<Rightarrow> ('k \<times> 'v) list" where
  "aset k v kvs =
     (if k \<in> fst ` set kvs then map (\<lambda>e. if fst e = k then (k, v) else e) kvs
      else kvs @ [(k, v)])"

definition own :: "(string \<times> jsval) list \<Rightarrow> string \<Rightarrow> jsval" where
  "own kvs k = (case map_of kvs k of None \<Rightarrow> JUndefined | Some v \<Rightarrow> v)"

definition indexed :: "'a list \<Rightarrow> (string \<times> 'a) list" where
  "indexed xs = zip (map show_nat [0..<length xs]) xs"

text \<open>Reading a property, \<open>x[k]\<close>: a TypeError on \<open>undefined\<close> and \<open>null\<close>.\<close>

fun get_prop :: "jsval \<Rightarrow> string \<Rightarrow> jserr + jsval" where
  "get_prop JUndefined k = Inl (TypeError ''Cannot read properties of undefined'')"
| "get_prop JNull k = Inl (TypeError ''Cannot read properties of null'')"
| "get_prop (JObj kvs) k = Inr (own kvs k)"
| "get_prop (JArr xs) k =
     Inr (if k = ''length'' then JNum (int (length xs)) else own (indexed xs) k)"
| "get_prop (JStr s) k =
     Inr (if k = ''length'' then JNum (int (length s))
          else own (indexed (map (\<lambda>c. JStr [c]) s)) k)"
| "get_prop (JBool b) k = Inr JUndefined"
| "get_prop (JNum n) k = Inr JUndefined"

text \<open>Writing a property, \<open>x[k] = v\<close>, in strict mode (the module is an ES module): a
  TypeError on \<open>undefined\<close>, \<open>null\<close> and on a primitive. A named property stored on an
  array is outside the model of values.\<close>

fun set_prop :: "jsval \<Rightarrow> string \<Rightarrow> jsval \<Rightarrow> jserr + jsval" where
  "set_prop (JObj kvs) k v = Inr (JObj (aset k v kvs))"
| "set_prop JUndefined k v = Inl (TypeError ''Cannot set properties of undefined'')"
| "set_prop JNull k v = Inl (TypeError ''Cannot set properties of null'')"
| "set_prop (JArr xs) k v = Inl (Unmodelled ''property stored on an array'')"
| "set_prop (JStr s) k v = Inl (TypeError ''Cannot create property on string'')"
| "set_prop (JBool b) k v = Inl (TypeError ''Cannot create property on boolean'')"
| "set_prop (JNum n) k v = Inl (TypeError ''Cannot create property on number'')"

text \<open>\<open>Object.entries\<close> of a value of type object.\<close>

fun entries :: "jsval \<Rightarrow> (string \<times> jsval) list" where
  "entries (JObj kvs) = kvs"
| "entries (JArr xs) = indexed xs"
| "entries _ = []"

text \<open>\<open>String.prototype.trim\<close>: the white space and line terminators among the code
  units below 256.\<close>

definition is_ws :: "char \<Rightarrow> bool" where
  "is_ws c = (c \<in> set [CHR 0x09, CHR 0x0A, CHR 0x0B, CHR 0x0C, CHR 0x0D, CHR 0x20, CHR 0xA0])"

definition trim :: "string \<Rightarrow> string" where
  "trim s = rev (dropWhile is_ws (rev (dropWhile is_ws s)))"

section \<open>The files module (packages/files/src/index.ts)\<close>

record File =
  content :: string
  path :: string
  filename :: string
  extname :: string

record SemVer =
  major :: nat
  minor :: nat
  patch :: nat
  prerelease :: "string list"

text \<open>
  The parsers and writers the module imports are parameters of the model: \<open>semver\<close> is the
  constructor \<open>new SemVer(s)\<close> of the semver package (\<open>None\<close> when it throws), the others
  are \<open>JSON.parse\<close>, \<open>TOML.parse\<close>, \<open>TOML.stringify\<close>, \<open>yaml.load\<close> and
  \<open>yaml.dump\<close> (\<open>None\<close> when they throw).
\<close>

record libs =
  semver :: "string \<Rightarrow> SemVer option"
  JSON_parse :: "string \<Rightarrow> jsval option"
  TOML_parse :: "string \<Rightarrow> jsval option"
  TOML_stringify :: "jsval \<Rightarrow> string option"
  yaml_load :: "string \<Rightarrow> jsval option"
  yaml_dump :: "jsval \<Rightarrow> string option"

type_synonym DepsKeyed = "(string \<times> (string \<times> jsval) list) list"

record PkgMinimum =
  version :: jsval
  versionMajor :: nat
  versionMinor :: nat
  versionPatch :: nat
  versionPrerelease :: "string list option"
  deps :: DepsKeyed
  pkg :: jsval

text \<open>The field \<open>file\<close> is written \<open>file'\<close> (\<open>file\<close> is a keyword).\<close>

record PackageFile = PkgMinimum +
  file' :: "File option"
  name :: string

text \<open>\<open>semver.major(x)\<close>, \<open>semver.minor(x)\<close>, \<open>semver.patch(x)\<close> and
  \<open>semver.prerelease(x)\<close> construct \<open>new SemVer(x)\<close>, which throws a TypeError on
  anything but a string it can parse. \<open>semver.valid(s)\<close> is only called on a trimmed
  string, where it is non-null exactly when the constructor succeeds.\<close>

definition semver_of :: "libs \<Rightarrow> jsval \<Rightarrow> jserr + SemVer" where
  "semver_of L x =
     (case x of
        JStr s \<Rightarrow> (case semver L s of None \<Rightarrow> Inl (TypeError ''Invalid Version'') | Some sv \<Rightarrow> Inr sv)
      | _ \<Rightarrow> Inl (TypeError ''Invalid Version''))"

definition semver_valid :: "libs \<Rightarrow> string \<Rightarrow> bool" where
  "semver_valid L s = (semver L s \<noteq> None)"

definition semver_prerelease :: "SemVer \<Rightarrow> string list option" where
  "semver_prerelease sv = (if prerelease sv = [] then None else Some (prerelease sv))"

subsection \<open>keyDeps\<close>

text \<open>What one entry \<open>[dep, version]\<close> of a dependency table pushes onto \<open>deps[dep]\<close>.
  \<open>typeof null\<close> is \<open>"object"\<close>, so a null entry reaches \<open>version.version\<close> and throws.\<close>

definition dep_items :: "string \<Rightarrow> jsval \<Rightarrow> jserr + (string \<times> jsval) list" where
  "dep_items depType v =
     (if typeof v = TString then Inr [(depType, v)]
      else if typeof v = TObject then
        andThen (get_prop v ''version'')
          (\<lambda>vv. if truthy vv then Inr [(depType, vv)] else Inr [])
      else Inr [])"

definition deps_of :: "DepsKeyed \<Rightarrow> string \<Rightarrow> (string \<times> jsval) list" where
  "deps_of ds dep = (case map_of ds dep of None \<Rightarrow> [] | Some l \<Rightarrow> l)"

fun keyDeps_entries :: "string \<Rightarrow> (string \<times> jsval) list \<Rightarrow> DepsKeyed \<Rightarrow> jserr + DepsKeyed" where
  "keyDeps_entries depType [] ds = Inr ds"
| "keyDeps_entries depType ((dep, v) # es) ds =
     andThen (dep_items depType v)
       (\<lambda>items. keyDeps_entries depType es (aset dep (deps_of ds dep @ items) ds))"

fun keyDeps_types :: "string list \<Rightarrow> jsval \<Rightarrow> DepsKeyed \<Rightarrow> jserr + DepsKeyed" where
  "keyDeps_types [] parsed ds = Inr ds"
| "keyDeps_types (depType # ts) parsed ds =
     andThen (get_prop parsed depType)
       (\<lambda>d. andThen
          (if truthy d \<and> typeof d = TObject then keyDeps_entries depType (entries d) ds
           else Inr ds)
          (keyDeps_types ts parsed))"

definition keyDeps :: "jsval \<Rightarrow> jserr + DepsKeyed" where
  "keyDeps parsed =
     keyDeps_types [''dependencies'', ''devDependencies'', ''dev-dependencies''] parsed []"

subsection \<open>parsePkg\<close>

definition parsed_pkg ::
  "jsval \<Rightarrow> SemVer \<Rightarrow> string list option \<Rightarrow> DepsKeyed \<Rightarrow> jsval \<Rightarrow> PkgMinimum" where
  "parsed_pkg v sv pre ds doc =
     \<lparr> version = v, versionMajor = major sv, versionMinor = minor sv,
       versionPatch = patch sv, versionPrerelease = pre, deps = ds, pkg = doc \<rparr>"

definition lib_call :: "string \<Rightarrow> 'a option \<Rightarrow> jserr + 'a" where
  "lib_call nm r = (case r of None \<Rightarrow> Inl (LibError nm) | Some x \<Rightarrow> Inr x)"

definition parsePkg :: "libs \<Rightarrow> File \<Rightarrow> jserr + PkgMinimum" where
  "parsePkg L f =
     (if content f = [] then Inl (Error (path f @ '' does not have any content''))
      else if extname f = ''.toml'' then
        andThen (lib_call ''TOML.parse'' (TOML_parse L (content f))) (\<lambda>parsedTOML.
        andThen (get_prop parsedTOML ''package'') (\<lambda>package.
        andThen (get_prop package ''version'') (\<lambda>v.
        andThen (semver_of L v) (\<lambda>sv.
        andThen (keyDeps parsedTOML) (\<lambda>ds.
        Inr (parsed_pkg v sv (semver_prerelease sv) ds parsedTOML))))))
      else if extname f = ''.json'' then
        andThen (lib_call ''JSON.parse'' (JSON_parse L (content f))) (\<lambda>parsedJSON.
        andThen (get_prop parsedJSON ''version'') (\<lambda>v.
        andThen (semver_of L v) (\<lambda>sv.
        andThen (keyDeps parsedJSON) (\<lambda>ds.
        Inr (parsed_pkg v sv (semver_prerelease sv) ds parsedJSON)))))
      else if extname f = ''.yml'' \<or> extname f = ''.yaml'' then
        andThen (lib_call ''yaml.load'' (yaml_load L (content f))) (\<lambda>parsedYAML.
        if typeof parsedYAML = TString \<or> typeof parsedYAML = TNumber
           \<or> parsedYAML = JNull \<or> parsedYAML = JUndefined
        then Inl (Error ''file improperly structured'')
        else
        andThen (if truthy parsedYAML
                 then andThen (get_prop parsedYAML ''name'') (\<lambda>n.
                      if \<not> truthy n then Inr True
                      else andThen (get_prop parsedYAML ''version'') (\<lambda>v. Inr (\<not> truthy v)))
                 else Inr False) (\<lambda>missing.
        if missing then Inl (Error ''missing version'')
        else
        andThen (get_prop parsedYAML ''version'') (\<lambda>v.
        andThen (semver_of L v) (\<lambda>sv.
        andThen (keyDeps parsedYAML) (\<lambda>ds.
        Inr (parsed_pkg v sv None ds parsedYAML))))))
      else
        (let stringVersion = trim (content f) in
         if \<not> semver_valid L stringVersion then Inl (Error ''not valid version'')
         else
         andThen (semver_of L (JStr stringVersion)) (\<lambda>sv.
         Inr (parsed_pkg (JStr stringVersion) sv None []
                (JObj [(''name'', JStr ''''), (''version'', JStr stringVersion)])))))"

subsection \<open>stringifyPkg\<close>

text \<open>\<open>JSON.stringify(value, null, "  ")\<close>: the text of a value at a given indentation,
  \<open>None\<close> where \<open>JSON.stringify\<close> gives \<open>undefined\<close>. A member whose value is
  \<open>undefined\<close> is left out of an object and printed as \<open>null\<close> in an array.\<close>

definition hex_char :: "nat \<Rightarrow> char" where
  "hex_char d = ''0123456789abcdef'' ! d"

definition json_escape :: "char \<Rightarrow> string" where
  "json_escape c =
     (if c = CHR 0x08 then [CHR 0x5C, CHR ''b'']
      else if c = CHR 0x09 then [CHR 0x5C, CHR ''t'']
      else if c = CHR 0x0A then [CHR 0x5C, CHR ''n'']
      else if c = CHR 0x0C then [CHR 0x5C, CHR ''f'']
      else if c = CHR 0x0D then [CHR 0x5C, CHR ''r'']
      else if c = CHR 0x22 then [CHR 0x5C, CHR 0x22]
      else if c = CHR 0x5C then [CHR 0x5C, CHR 0x5C]
      else if of_char c < (32 :: nat)
        then [CHR 0x5C, CHR ''u'', CHR ''0'', CHR ''0'',
              hex_char (of_char c div 16), hex_char (of_char c mod 16)]
      else [c])"

definition json_quote :: "string \<Rightarrow> string" where
  "json_quote s = CHR 0x22 # concat (map json_escape s) @ [CHR 0x22]"

fun join :: "string \<Rightarrow> string list \<Rightarrow> string" where
  "join sep [] = []"
| "join sep [x] = x"
| "join sep (x # y # ys) = x @ sep @ join sep (y # ys)"

definition json_block :: "char \<Rightarrow> char \<Rightarrow> string \<Rightarrow> string list \<Rightarrow> string" where
  "json_block l r ind items =
     (if items = [] then [l, r]
      else [l, CHR 0x0A] @ join [CHR '','', CHR 0x0A] items @ [CHR 0x0A] @ ind @ [r])"

fun json_ser :: "string \<Rightarrow> jsval \<Rightarrow> string option" where
  "json_ser ind JUndefined = None"
| "json_ser ind JNull = Some ''null''"
| "json_ser ind (JBool b) = Some (if b then ''true'' else ''false'')"
| "json_ser ind (JNum n) = Some (show_int n)"
| "json_ser ind (JStr s) = Some (json_quote s)"
| "json_ser ind (JArr xs) =
     Some (json_block (CHR ''['') (CHR '']'') ind
       (map (\<lambda>x. (ind @ ''  '') @
               (case json_ser (ind @ ''  '') x of None \<Rightarrow> ''null'' | Some t \<Rightarrow> t)) xs))"
| "json_ser ind (JObj kvs) =
     Some (json_block (CHR ''{'') (CHR ''}'') ind
       (concat (map (\<lambda>e. case json_ser (ind @ ''  '') (snd e) of
                           None \<Rightarrow> []
                         | Some t \<Rightarrow> [(ind @ ''  '') @ json_quote (fst e) @ '': '' @ t]) kvs)))"

definition JSON_stringify :: "jsval \<Rightarrow> string" where
  "JSON_stringify x = (case json_ser [] x of None \<Rightarrow> ''undefined'' | Some t \<Rightarrow> t)"

text \<open>The result is \<open>newContents.version\<close> in the default case, whatever that value is.\<close>

definition stringifyPkg :: "libs \<Rightarrow> jsval \<Rightarrow> string \<Rightarrow> jserr + jsval" where
  "stringifyPkg L newContents ext =
     (if ext = ''.toml'' then
        andThen (lib_call ''TOML.stringify'' (TOML_stringify L newContents)) (\<lambda>s. Inr (JStr s))
      else if ext = ''.json'' then Inr (JStr (JSON_stringify newContents @ [CHR 0x0A]))
      else if ext = ''.yml'' \<or> ext = ''.yaml'' then
        andThen (lib_call ''yaml.dump'' (yaml_dump L newContents)) (\<lambda>s. Inr (JStr s))
      else get_prop newContents ''version'')"

subsection \<open>loadFile, saveFile, readPkgFile, writePkgFile\<close>

text \<open>The files below the working directory: normalised relative paths and their
  contents, in directory order.\<close>

type_synonym files = "(string \<times> string) list"

definition path_base :: "string \<Rightarrow> string" where
  "path_base p = rev (takeWhile (\<lambda>c. c \<noteq> CHR ''/'') (rev p))"

definition path_ext :: "string \<Rightarrow> string" where
  "path_ext p =
     (let b = path_base p; e = rev (takeWhile (\<lambda>c. c \<noteq> CHR ''.'') (rev b))
      in if CHR ''.'' \<notin> set b \<or> length e + 1 = length b \<or> b = ''..'' then []
         else CHR ''.'' # e)"

definition path_name :: "string \<Rightarrow> string" where
  "path_name p = (let b = path_base p in take (length b - length (path_ext p)) b)"

definition path_join :: "string \<Rightarrow> string \<Rightarrow> string" where
  "path_join a b = (if a = [] then b else a @ ''/'' @ b)"

definition loadFile :: "files \<Rightarrow> string \<Rightarrow> jserr + File" where
  "loadFile fs p =
     (case map_of fs p of
        None \<Rightarrow> Inl (Error ''ENOENT'')
      | Some c \<Rightarrow> Inr \<lparr> content = c, path = p, filename = path_name p, extname = path_ext p \<rparr>)"

definition saveFile :: "files \<Rightarrow> File \<Rightarrow> jserr + File \<times> files" where
  "saveFile fs f = Inr (f, aset (path f) (content f) fs)"

record pkgConfig =
  manager :: "string option"
  cfg_path :: "string option"
  packageFileName :: "string option"

definition given :: "string option \<Rightarrow> bool" where
  "given x = (case x of None \<Rightarrow> False | Some s \<Rightarrow> s \<noteq> [])"

fun contains_str :: "string \<Rightarrow> string \<Rightarrow> bool" where
  "contains_str sub [] = (sub = [])"
| "contains_str sub (c # cs) = (take (length sub) (c # cs) = sub \<or> contains_str sub cs)"

definition read_at :: "libs \<Rightarrow> files \<Rightarrow> string \<Rightarrow> string \<Rightarrow> jserr + PackageFile" where
  "read_at L fs p nickname =
     andThen (loadFile fs p) (\<lambda>inputFile.
     andThen (parsePkg L inputFile) (\<lambda>parsed.
     Inr (PkgMinimum.extend parsed (PackageFile.fields (Some inputFile) nickname))))"

definition readPkgFile ::
  "libs \<Rightarrow> files \<Rightarrow> string option \<Rightarrow> pkgConfig option \<Rightarrow> string \<Rightarrow> jserr + PackageFile" where
  "readPkgFile L fs fl pkgConfig nickname =
     (if given fl then read_at L fs (the fl) nickname
      else
        (case pkgConfig of
           None \<Rightarrow> read_at L fs (path_join [] ''package.json'') nickname
         | Some c \<Rightarrow>
             if given (cfg_path c) \<and> given (packageFileName c)
             then read_at L fs (path_join (the (cfg_path c)) (the (packageFileName c))) nickname
             else
               (let packageFile =
                      (if given (manager c) then
                         (if contains_str ''rust'' (the (manager c)) then ''Cargo.toml''
                          else if contains_str ''dart'' (the (manager c))
                                  \<or> contains_str ''flutter'' (the (manager c))
                          then ''pubspec.yaml''
                          else ''package.json'')
                       else ''package.json'')
                in read_at L fs
                     (path_join (if given (cfg_path c) then the (cfg_path c) else []) packageFile)
                     nickname)))"

text \<open>\<open>fs.writeFile\<close> rejects data that is not a string.\<close>

definition writePkgFile :: "libs \<Rightarrow> files \<Rightarrow> PackageFile \<Rightarrow> jserr + File \<times> files" where
  "writePkgFile L fs packageFile =
     (case file' packageFile of
        None \<Rightarrow> Inl (Error (''no vfile present for '' @ name packageFile))
      | Some f \<Rightarrow>
          andThen (stringifyPkg L (pkg packageFile) (extname f)) (\<lambda>c.
          case c of
            JStr s \<Rightarrow> saveFile fs (f\<lparr>content := s\<rparr>)
          | _ \<Rightarrow> Inl (TypeError ''ERR_INVALID_ARG_TYPE'')))"

subsection \<open>getPackageFileVersion, setPackageFileVersion\<close>

text \<open>The three dependency branches of the getter differ in the table they read and in one
  word of the message; \<open>noun\<close> is that word.\<close>

definition missing_version_message :: "string \<Rightarrow> string \<Rightarrow> string \<Rightarrow> string" where
  "missing_version_message nm noun dep =
     nm @ '' has a '' @ noun @ '' on '' @ dep @ '', and '' @ dep
       @ '' does not have a version number. '' @ ''This cannot be published. ''
       @ ''Please pin it to a MAJOR.MINOR.PATCH reference.''"

definition get_dependency ::
  "PackageFile \<Rightarrow> string \<Rightarrow> string \<Rightarrow> string option \<Rightarrow> jserr + jsval" where
  "get_dependency p property noun dep =
     andThen (get_prop (pkg p) property) (\<lambda>table.
     if \<not> given dep \<or> \<not> truthy table then Inr (JStr [])
     else
       andThen (get_prop table (the dep)) (\<lambda>entry.
       if typeof entry = TObject then
         andThen (get_prop entry ''version'') (\<lambda>v.
         if \<not> truthy v then Inl (Error (missing_version_message (name p) noun (the dep)))
         else Inr v)
       else Inr entry))"

definition getPackageFileVersion ::
  "PackageFile \<Rightarrow> string \<Rightarrow> string option \<Rightarrow> jserr + jsval" where
  "getPackageFileVersion p property dep =
     (if file' p \<noteq> None \<and> truthy (pkg p) then
        (if property = ''version'' then
           (if extname (the (file' p)) = ''.json'' then get_prop (pkg p) ''version''
            else if extname (the (file' p)) = ''.toml'' then
              andThen (get_prop (pkg p) ''package'') (\<lambda>package. get_prop package ''version'')
            else get_prop (pkg p) ''version'')
         else if property = ''dependencies'' then get_dependency p property ''dependency'' dep
         else if property = ''devDependencies'' then get_dependency p property ''devDependency'' dep
         else if property = ''dev-dependencies'' then get_dependency p property ''devDependency'' dep
         else Inr (JStr []))
      else Inr (JStr []))"

text \<open>The setter mutates \<open>pkg.pkg\<close> in place and returns \<open>pkg\<close>; the model returns the
  updated record. \<open>put_back\<close> is the enclosing object seen after a nested object was
  mutated.\<close>

definition put_back :: "jsval \<Rightarrow> string \<Rightarrow> jsval \<Rightarrow> jsval" where
  "put_back x k v = (case x of JObj kvs \<Rightarrow> JObj (aset k v kvs) | _ \<Rightarrow> x)"

definition set_dependency ::
  "PackageFile \<Rightarrow> string \<Rightarrow> string \<Rightarrow> string option \<Rightarrow> jserr + PackageFile" where
  "set_dependency p v property dep =
     andThen (get_prop (pkg p) property) (\<lambda>table.
     if \<not> given dep \<or> \<not> truthy table then Inr p
     else
       andThen (get_prop table (the dep)) (\<lambda>entry.
       if typeof entry = TObject then
         andThen (set_prop entry ''version'' (JStr v)) (\<lambda>entry'.
         Inr (p\<lparr>pkg := put_back (pkg p) property (put_back table (the dep) entry')\<rparr>))
       else
         andThen (set_prop table (the dep) (JStr v)) (\<lambda>table'.
         Inr (p\<lparr>pkg := put_back (pkg p) property table'\<rparr>))))"

definition setPackageFileVersion ::
  "PackageFile \<Rightarrow> string \<Rightarrow> string \<Rightarrow> string option \<Rightarrow> jserr + PackageFile" where
  "setPackageFileVersion p v property dep =
     (if file' p \<noteq> None \<and> truthy (pkg p) then
        (if property = ''version'' then
           (if extname (the (file' p)) = ''.json'' then
              andThen (set_prop (pkg p) ''version'' (JStr v)) (\<lambda>d. Inr (p\<lparr>pkg := d\<rparr>))
            else if extname (the (file' p)) = ''.toml'' then
              andThen (get_prop (pkg p) ''package'') (\<lambda>package.
              andThen (set_prop package ''version'' (JStr v)) (\<lambda>package'.
              Inr (p\<lparr>pkg := put_back (pkg p) ''package'' package'\<rparr>)))
            else
              andThen (set_prop (pkg p) ''version'' (JStr v)) (\<lambda>d. Inr (p\<lparr>pkg := d\<rparr>)))
         else if property = ''dependencies'' \<or> property = ''devDependencies''
                 \<or> property = ''dev-dependencies''
         then set_dependency p v property dep
         else Inr p)
      else Inr p)"

subsection \<open>Setting a version and writing the file\<close>

text \<open>The sequence the release makes for one manifest: read the package file, set its
  version, write it back.\<close>

definition set_and_write ::
  "libs \<Rightarrow> files \<Rightarrow> string option \<Rightarrow> pkgConfig option \<Rightarrow> string \<Rightarrow> string \<Rightarrow> jserr + File \<times> files" where
  "set_and_write L fs fl pkgConfig nickname v =
     andThen (readPkgFile L fs fl pkgConfig nickname) (\<lambda>p.
     andThen (setPackageFileVersion p v ''version'' None) (\<lambda>p'.
     writePkgFile L fs p'))"

text \<open>Reading the file again after \<open>set_and_write\<close> and asking for its version.\<close>

definition version_after_write ::
  "libs \<Rightarrow> files \<Rightarrow> string option \<Rightarrow> pkgConfig option \<Rightarrow> string \<Rightarrow> string \<Rightarrow> jserr + jsval" where
  "version_after_write L fs fl pkgConfig nickname v =
     andThen (set_and_write L fs fl pkgConfig nickname v) (\<lambda>r.
     andThen (readPkgFile L (snd r) fl pkgConfig nickname) (\<lambda>p.
     getPackageFileVersion p ''version'' None))"

text \<open>Two property lists with the same keys in the same order, whose members are the
  same except under the key \<open>k\<close>.\<close>

definition same_but :: "string \<Rightarrow> (string \<times> jsval) list \<Rightarrow> (string \<times> jsval) list \<Rightarrow> bool" where
  "same_but k kvs kvs' =
     (map fst kvs' = map fst kvs \<and> list_all2 (\<lambda>e e'. fst e = k \<or> e' = e) kvs kvs')"

text \<open>What is assumed of a library when a document is written and read again: the
  writer accepts the document and gives a text that is not empty, and the reader gives
  the document back from that text. Files without a structured encoding use no library.\<close>

definition reads_back :: "libs \<Rightarrow> string \<Rightarrow> jsval \<Rightarrow> bool" where
  "reads_back L ext d =
     (if ext = ''.toml'' then
        (case TOML_stringify L d of None \<Rightarrow> False | Some s \<Rightarrow> s \<noteq> [] \<and> TOML_parse L s = Some d)
      else if ext = ''.json'' then JSON_parse L (JSON_stringify d @ [CHR 0x0A]) = Some d
      else if ext = ''.yml'' \<or> ext = ''.yaml'' then
        (case yaml_dump L d of None \<Rightarrow> False | Some s \<Rightarrow> s \<noteq> [] \<and> yaml_load L s = Some d)
      else True)"

section \<open>The earlier files module (src/unnamed/part_000)\<close>

text \<open>An earlier version of the files module. Its functions carry the suffix \<open>_p0\<close>.
  The events are what a run does that can be observed: lines on the console, the timer
  and the processes it starts.\<close>

datatype event =
    Console string
  | Timer int string
  | Spawn string string string

record world =
  disk :: files
  events :: "event list"

definition emit :: "event list \<Rightarrow> world \<Rightarrow> world" where
  "emit es w = w\<lparr>events := events w @ es\<rparr>"

record VFile =
  contents :: string
  vpath :: string
  vextname :: string

record PackageFile_p0 =
  vfile :: VFile
  name_p0 :: jsval
  version_p0 :: jsval
  pkg_p0 :: jsval

text \<open>An identifier is resolved in the bindings in scope; one that is bound nowhere is a
  ReferenceError. In \<open>stringifyPkg\<close> these are its two parameters and the bindings of the
  module (the imported modules and the two functions, opaque objects here) and of the
  module wrapper.\<close>

definition lookup_var :: "(string \<times> jsval) list \<Rightarrow> string \<Rightarrow> jserr + jsval" where
  "lookup_var env x =
     (case map_of env x of
        None \<Rightarrow> Inl (ReferenceError (x @ '' is not defined''))
      | Some v \<Rightarrow> Inr v)"

definition module_scope_p0 :: "(string \<times> jsval) list" where
  "module_scope_p0 =
     map (\<lambda>x. (x, JObj []))
       [''vfile'', ''globby'', ''fs'', ''path'', ''TOML'', ''parsePkg'', ''stringifyPkg'',
        ''module'', ''exports'', ''require'', ''__filename'', ''__dirname'']"

definition stringifyPkg_p0 :: "(jsval \<Rightarrow> string option) \<Rightarrow> jsval \<Rightarrow> string \<Rightarrow> jserr + string" where
  "stringifyPkg_p0 toml_stringify newContents ext =
     (let env = [(''newContents'', newContents), (''extname'', JStr ext)] @ module_scope_p0 in
      if ext = ''.toml'' then
        andThen (lookup_var env ''file'') (\<lambda>fl.
        andThen (get_prop fl ''contents'') (\<lambda>c.
        lib_call ''TOML.stringify'' (toml_stringify c)))
      else if ext = ''.json'' then
        andThen (lookup_var env ''newContents'') (\<lambda>nc. Inr (JSON_stringify nc @ [CHR 0x0A]))
      else Inl (Error ''Unknown package file type.''))"

definition writePkgFile_p0 ::
  "(jsval \<Rightarrow> string option) \<Rightarrow> PackageFile_p0 \<Rightarrow> world \<Rightarrow> (jserr + VFile) \<times> world" where
  "writePkgFile_p0 toml_stringify packageFile w =
     (case stringifyPkg_p0 toml_stringify (pkg_p0 packageFile) (vextname (vfile packageFile)) of
        Inl e \<Rightarrow> (Inl e, w)
      | Inr s \<Rightarrow>
          (let vFileNext = (vfile packageFile)\<lparr>contents := s\<rparr>
           in (Inr vFileNext, w\<lparr>disk := aset (vpath vFileNext) s (disk w)\<rparr>)))"

section \<open>configFile and changeFiles (packages/files/src/index.ts)\<close>

text \<open>\<open>run.js\<close> takes \<open>configFile\<close> and \<open>changeFiles\<close> from the package
  \<open>@covector/files\<close>, whose source is index.ts. The working directory \<open>cwd\<close> is the
  directory of the process and is not empty.\<close>

definition file_obj :: "File \<Rightarrow> jsval" where
  "file_obj f =
     JObj [(''content'', JStr (content f)), (''path'', JStr (path f)),
           (''filename'', JStr (filename f)), (''extname'', JStr (extname f))]"

text \<open>The own properties that \<open>{...x}\<close> copies and \<open>Object.keys(x)\<close> lists.\<close>

definition spread :: "jsval \<Rightarrow> (string \<times> jsval) list" where
  "spread x =
     (case x of
        JObj kvs \<Rightarrow> kvs
      | JArr xs \<Rightarrow> indexed xs
      | JStr s \<Rightarrow> indexed (map (\<lambda>c. JStr [c]) s)
      | _ \<Rightarrow> [])"

definition assign :: "(string \<times> jsval) list \<Rightarrow> (string \<times> jsval) list \<Rightarrow> (string \<times> jsval) list" where
  "assign target src = foldl (\<lambda>acc e. aset (fst e) (snd e) acc) target src"

datatype stat = IsFile | IsDirectory

text \<open>\<open>statSync\<close> on a relative path: a file of the disk, a directory that holds one,
  or an error.\<close>

definition statSync :: "files \<Rightarrow> string \<Rightarrow> jserr + stat" where
  "statSync fs p =
     (if map_of fs p \<noteq> None then Inr IsFile
      else if p = ''.'' \<or> list_ex (\<lambda>k. take (length p + 1) k = p @ ''/'') (map fst fs)
      then Inr IsDirectory
      else Inl (Error ''ENOENT''))"

definition path_dirname :: "string \<Rightarrow> string" where
  "path_dirname p =
     (let d = take (length p - length (path_base p) - 1) p in if d = [] then ''.'' else d)"

text \<open>The reduction over \<open>Object.keys(config.packages)\<close>; the accumulator is
  \<open>config.packages\<close> itself, changed in place, and \<open>nm\<close> is the key \<open>pkg\<close>.\<close>

fun check_packages :: "files \<Rightarrow> string list \<Rightarrow> jsval \<Rightarrow> jserr + jsval" where
  "check_packages fs [] packages = Inr packages"
| "check_packages fs (nm # ks) packages =
     andThen (get_prop packages nm) (\<lambda>entry.
     andThen (get_prop entry ''path'') (\<lambda>packagePath.
     andThen
       (if \<not> truthy packagePath then Inr packages
        else
          (case packagePath of
             JStr pp \<Rightarrow>
               andThen (statSync fs pp) (\<lambda>checkDir.
               if checkDir = IsFile then
                 set_prop packages nm
                   (JObj (assign (spread entry)
                      [(''path'', JStr (path_dirname pp)),
                       (''packageFileName'', JStr (path_base pp))]))
               else Inr packages)
           | _ \<Rightarrow> Inl (TypeError ''ERR_INVALID_ARG_TYPE'')))
       (check_packages fs ks)))"

definition checkFileOrDirectory :: "files \<Rightarrow> jsval \<Rightarrow> jserr + (string \<times> jsval) list" where
  "checkFileOrDirectory fs config =
     andThen (get_prop config ''packages'') (\<lambda>packages.
     if \<not> truthy packages then Inr []
     else
       andThen (check_packages fs (map fst (spread packages)) packages) (\<lambda>checked.
       Inr [(''packages'', checked)]))"

definition configFile :: "libs \<Rightarrow> files \<Rightarrow> jserr + jsval" where
  "configFile L fs =
     andThen (loadFile fs (path_join ''.changes'' ''config.json'')) (\<lambda>inputFile.
     andThen (lib_call ''JSON.parse'' (JSON_parse L (content inputFile))) (\<lambda>parsed.
     andThen (checkFileOrDirectory fs parsed) (\<lambda>checked.
     Inr (JObj (assign (assign [(''file'', file_obj inputFile)] (spread parsed)) checked)))))"

text \<open>The pattern \<open>*.md\<close> in the change folder: a name that ends in \<open>.md\<close> and does not
  start with a dot.\<close>

definition md_in :: "string \<Rightarrow> string \<Rightarrow> bool" where
  "md_in folder p =
     (let b = path_base p in
      p = path_join folder b \<and> 3 < length b \<and> hd b \<noteq> CHR ''.''
      \<and> drop (length b - 3) b = ''.md'')"

text \<open>\<open>changeFiles\<close> takes \<open>cwd\<close> and \<open>changeFolder\<close> from its argument and lists the
  paths that match; it has no parameter \<open>remove\<close> and touches no file.\<close>

definition changeFiles :: "files \<Rightarrow> string list" where
  "changeFiles fs =
     filter (\<lambda>p. md_in ''.changes'' p
                 \<and> p \<noteq> path_join ''.changes'' ''README.md''
                 \<and> p \<noteq> path_join ''.changes'' ''readme.md''
                 \<and> p \<noteq> path_join ''.changes'' ''Readme.md'')
       (map fst fs)"

section \<open>The command (packages/covector/src/run.js)\<close>

record pkgcmd =
  cmd_pkg :: string
  cmd_path :: string
  getPublishedVersion :: "string option"
  publish :: string
  pkgFile :: PackageFile

text \<open>What a spawned process does: the chunks it writes to its standard output, and how
  it ends, with an exit status or with an error event (it could not be started), by
  command line and working directory. What a command does to the files is not followed.\<close>

datatype proc_end = Exit int | SpawnError string

record procs =
  stdout_chunks :: "string \<Rightarrow> string \<Rightarrow> string list"
  ending :: "string \<Rightarrow> string \<Rightarrow> proc_end"

text \<open>\<open>ChildProcess.spawn\<close> is the one of the library \<open>@effection/node\<close>, which is not
  among the sources. It supervises the child for the operation that spawned it: an error
  event of the child, or an exit with a status other than 0, fails that operation, in the
  second case with the error \<open>'<command>' exited with non-zero exit code\<close>. \<open>run.js\<close>
  catches nothing, so the run is rejected. \<open>supervise\<close> is the error of a child, if
  any.\<close>

definition supervise :: "procs \<Rightarrow> string \<Rightarrow> string \<Rightarrow> jserr option" where
  "supervise P command cwd =
     (case ending P command cwd of
        Exit code \<Rightarrow>
          if code = 0 then None
          else Some (Error ([CHR 0x27] @ trim command @ [CHR 0x27]
                            @ '' exited with non-zero exit code''))
      | SpawnError m \<Rightarrow> Some (Error m))"

text \<open>\<open>String(x)\<close>, as a template literal applies it.\<close>

fun js_String :: "jsval \<Rightarrow> string" where
  "js_String JUndefined = ''undefined''"
| "js_String JNull = ''null''"
| "js_String (JBool b) = (if b then ''true'' else ''false'')"
| "js_String (JNum n) = show_int n"
| "js_String (JStr s) = s"
| "js_String (JArr xs) =
     join '','' (map (\<lambda>x. if x = JNull \<or> x = JUndefined then [] else js_String x) xs)"
| "js_String (JObj kvs) = ''[object Object]''"

text \<open>A package command is a plain object; as a property key it is coerced by
  \<open>Object.prototype.toString\<close>.\<close>

definition pkgcmd_key :: "pkgcmd \<Rightarrow> string" where
  "pkgcmd_key c = ''[object Object]''"

text \<open>The loop that assembles the probe's version from the chunks of its output. It ends
  when the text is neither empty nor \<open>"undefined"\<close>; when the chunks run out first it
  waits for a further chunk (\<open>None\<close>).\<close>

fun assemble_version :: "string \<Rightarrow> string list \<Rightarrow> string option" where
  "assemble_version v [] = (if v = [] \<or> v = ''undefined'' then None else Some v)"
| "assemble_version v (d # ds) =
     (if v = [] \<or> v = ''undefined'' then assemble_version (v @ trim d) ds else Some v)"

definition probe_version :: "procs \<Rightarrow> pkgcmd \<Rightarrow> string option" where
  "probe_version P c =
     assemble_version [] (stdout_chunks P (the (getPublishedVersion c)) (cmd_path c))"

type_synonym published = "(string \<times> jsval) list"

datatype 'a progress = Done 'a | Threw jserr | Waiting

text \<open>The body of the loop over the commands, for one package. A child that fails
  rejects the run while the loop body waits, for its output or for its exit. With a probe
  that exits with status 0 the body waits forever (\<open>Waiting\<close>) when the output never
  gives a version; otherwise it goes on after the exit of the probe. The entry is stored
  after the exit of the publish command.\<close>

definition publish_pkg ::
  "procs \<Rightarrow> pkgcmd \<Rightarrow> published \<Rightarrow> world \<Rightarrow> published progress \<times> world" where
  "publish_pkg P c published w =
     (let run = (\<lambda>w.
            (let w' = emit [Console (''publishing '' @ cmd_pkg c @ '' with '' @ publish c),
                            Spawn (publish c) (cmd_path c) ''inherit''] w
             in case supervise P (publish c) (cmd_path c) of
                  Some e \<Rightarrow> (Threw e, w')
                | None \<Rightarrow> (Done (aset (pkgcmd_key c) (JBool True) published), w')))
      in if given (getPublishedVersion c) then
           (let w1 = emit [Spawn (the (getPublishedVersion c)) (cmd_path c) ''pipe''] w
            in case supervise P (the (getPublishedVersion c)) (cmd_path c) of
                 Some e \<Rightarrow> (Threw e, w1)
               | None \<Rightarrow>
                   (case probe_version P c of
                      None \<Rightarrow> (Waiting, w1)
                    | Some v \<Rightarrow>
                        if version (pkgFile c) = JStr v
                        then (Done published,
                              emit [Console (cmd_pkg c @ ''@'' @ js_String (version (pkgFile c))
                                             @ '' is already published. Skipping.'')] w1)
                        else run w1))
         else run w)"

fun publish_loop ::
  "procs \<Rightarrow> pkgcmd list \<Rightarrow> published \<Rightarrow> world \<Rightarrow> published progress \<times> world" where
  "publish_loop P [] published w = (Done published, w)"
| "publish_loop P (c # cs) published w =
     (case publish_pkg P c published w of
        (Done published', w') \<Rightarrow> publish_loop P cs published' w'
      | (Threw e, w') \<Rightarrow> (Threw e, w')
      | (Waiting, w') \<Rightarrow> (Waiting, w'))"

text \<open>The packages \<open>@covector/assemble\<close>, \<open>@covector/apply\<close> and
  \<open>@covector/changelog\<close> are parameters. \<open>assemble\<close> is called as a plain function:
  it returns a plan or throws, and does no input or output. \<open>releases\<close> lists the keys
  of \<open>assembledChanges.releases\<close> with the type of each. The other three are awaited
  and may read and write files.\<close>

record ('plan, 'applied) externals =
  assemble :: "string list \<Rightarrow> jserr + 'plan"
  releases :: "'plan \<Rightarrow> (string \<times> string) list"
  mergeIntoConfig :: "'plan \<Rightarrow> jsval \<Rightarrow> string \<Rightarrow> world \<Rightarrow> (jserr + pkgcmd list) \<times> world"
  apply_changes :: "pkgcmd list \<Rightarrow> jsval \<Rightarrow> world \<Rightarrow> (jserr + 'applied) \<times> world"
  fillChangelogs :: "'applied \<Rightarrow> 'plan \<Rightarrow> jsval \<Rightarrow> world \<Rightarrow> (jserr + unit) \<times> world"

datatype 'applied outcome =
    Message string
  | Nothing
  | Applied 'applied
  | Published published
  | Throws jserr
  | Waits

text \<open>\<open>raceTime()\<close> spawns the timer task; the model records that it was started, with
  its default arguments, and does not model time.\<close>

definition raceTime :: "world \<Rightarrow> world" where
  "raceTime w = emit [Timer 120000 ''timeout out waiting 120s for command''] w"

text \<open>\<open>changeFiles\<close> is called with \<open>{cwd, remove: command === "version"}\<close>, of which
  it reads \<open>cwd\<close>. In the branch \<open>config\<close>, \<open>delete config.vfile\<close> removes a property
  that the configuration does not have.\<close>

definition covector ::
  "libs \<Rightarrow> ('plan, 'applied) externals \<Rightarrow> procs \<Rightarrow> string \<Rightarrow> world \<Rightarrow> 'applied outcome \<times> world" where
  "covector L X P command w0 =
     (case configFile L (disk w0) of
        Inl e \<Rightarrow> (Throws e, w0)
      | Inr config \<Rightarrow>
          (let changesArray = changeFiles (disk w0) in
           case assemble X changesArray of
             Inl e \<Rightarrow> (Throws e, w0)
           | Inr assembledChanges \<Rightarrow>
              if command = ''status'' then
                (if length changesArray = 0
                 then (Message ''No changes.'', emit [Console ''There are no changes.''] w0)
                 else (Message (''There are '' @ show_nat (length (releases X assembledChanges))
                         @ '' changes which include''
                         @ join '','' (map (\<lambda>r. '' '' @ fst r @ '' with '' @ snd r)
                                        (releases X assembledChanges))),
                       emit (Console ''changes:''
                             # concat (map (\<lambda>r. [Console (fst r @ '' => '' @ snd r),
                                                  Console ''console.dir(changes)''])
                                         (releases X assembledChanges))) w0))
              else if command = ''config'' then
                (Nothing, emit [Console ''console.dir(config)''] w0)
              else if command = ''version'' then
                (case mergeIntoConfig X assembledChanges config ''version'' (raceTime w0) of
                   (Inl e, w2) \<Rightarrow> (Throws e, w2)
                 | (Inr commands, w2) \<Rightarrow>
                     (case apply_changes X commands config w2 of
                        (Inl e, w3) \<Rightarrow> (Throws e, w3)
                      | (Inr applied, w3) \<Rightarrow>
                          (case fillChangelogs X applied assembledChanges config w3 of
                             (Inl e, w4) \<Rightarrow> (Throws e, w4)
                           | (Inr u, w4) \<Rightarrow> (Applied applied, w4))))
              else if command = ''publish'' then
                (case mergeIntoConfig X assembledChanges config ''publish'' (raceTime w0) of
                   (Inl e, w2) \<Rightarrow> (Throws e, w2)
                 | (Inr commands, w2) \<Rightarrow>
                     (case publish_loop P commands [] w2 of
                        (Done published, w3) \<Rightarrow> (Published published, w3)
                      | (Threw e, w3) \<Rightarrow> (Throws e, w3)
                      | (Waiting, w3) \<Rightarrow> (Waits, w3)))
              else (Nothing, w0)))"

text \<open>The test of the loop body, for one package: its publish command is run unless the
  probe is present and fails, never reports, or reports the version of the package
  file.\<close>

definition invokes_publish :: "procs \<Rightarrow> pkgcmd \<Rightarrow> bool" where
  "invokes_publish P c =
     (if given (getPublishedVersion c) then
        supervise P (the (getPublishedVersion c)) (cmd_path c) = None
        \<and> (case probe_version P c of None \<Rightarrow> False | Some v \<Rightarrow> version (pkgFile c) \<noteq> JStr v)
      else True)"

definition probe_events :: "pkgcmd \<Rightarrow> event list" where
  "probe_events c =
     (if given (getPublishedVersion c)
      then [Spawn (the (getPublishedVersion c)) (cmd_path c) ''pipe''] else [])"

definition publish_events :: "pkgcmd \<Rightarrow> event list" where
  "publish_events c =
     [Console (''publishing '' @ cmd_pkg c @ '' with '' @ publish c),
      Spawn (publish c) (cmd_path c) ''inherit'']"

section \<open>An instance of the libraries, for evaluating the model on concrete files\<close>

text \<open>
  Versions of the plain form MAJOR.MINOR.PATCH (numeric identifiers without leading
  zeros), and a reader for JSON texts made of objects, arrays, strings with the
  single-character escapes, integers and the three literals. The reader counts its calls
  down from a bound on the length of the text and answers \<open>None\<close> for any other text.
  This instance has no TOML or YAML library: those calls throw.
\<close>

definition is_digit :: "char \<Rightarrow> bool" where
  "is_digit c = (c \<in> set ''0123456789'')"

definition digits_value :: "string \<Rightarrow> nat" where
  "digits_value s = foldl (\<lambda>n c. 10 * n + (of_char c - 48)) 0 s"

definition numeric_id :: "string \<Rightarrow> nat option" where
  "numeric_id s =
     (if s \<noteq> [] \<and> list_all is_digit s \<and> (length s = 1 \<or> hd s \<noteq> CHR ''0'')
      then Some (digits_value s) else None)"

fun split_on :: "char \<Rightarrow> string \<Rightarrow> string list" where
  "split_on d [] = [[]]"
| "split_on d (c # cs) =
     (if c = d then [] # split_on d cs
      else (case split_on d cs of [] \<Rightarrow> [[c]] | x # xs \<Rightarrow> (c # x) # xs))"

definition semver_core :: "string \<Rightarrow> SemVer option" where
  "semver_core s =
     (case map numeric_id (split_on (CHR ''.'') s) of
        [Some x, Some y, Some z] \<Rightarrow> Some \<lparr> major = x, minor = y, patch = z, prerelease = [] \<rparr>
      | _ \<Rightarrow> None)"

definition json_ws :: "char \<Rightarrow> bool" where
  "json_ws c = (c \<in> set [CHR 0x20, CHR 0x09, CHR 0x0A, CHR 0x0D])"

definition unescape :: "char \<Rightarrow> char option" where
  "unescape e =
     (if e = CHR 0x22 \<or> e = CHR 0x5C \<or> e = CHR ''/'' then Some e
      else if e = CHR ''b'' then Some (CHR 0x08)
      else if e = CHR ''f'' then Some (CHR 0x0C)
      else if e = CHR ''n'' then Some (CHR 0x0A)
      else if e = CHR ''r'' then Some (CHR 0x0D)
      else if e = CHR ''t'' then Some (CHR 0x09)
      else None)"

fun read_string :: "string \<Rightarrow> string \<Rightarrow> (string \<times> string) option" where
  "read_string acc [] = None"
| "read_string acc [c] = (if c = CHR 0x22 then Some (acc, []) else None)"
| "read_string acc (c # e # cs) =
     (if c = CHR 0x22 then Some (acc, e # cs)
      else if c = CHR 0x5C then
        (case unescape e of None \<Rightarrow> None | Some d \<Rightarrow> read_string (acc @ [d]) cs)
      else if of_char c < (32 :: nat) then None
      else read_string (acc @ [c]) (e # cs))"

definition read_number :: "string \<Rightarrow> (jsval \<times> string) option" where
  "read_number s =
     (let neg = (s \<noteq> [] \<and> hd s = CHR ''-'');
          t = (if neg then tl s else s);
          ds = takeWhile is_digit t;
          r = dropWhile is_digit t
      in case numeric_id ds of
           None \<Rightarrow> None
         | Some n \<Rightarrow>
             if r \<noteq> [] \<and> hd r \<in> set ''.eE'' then None
             else Some (JNum (if neg then - int n else int n), r))"

definition read_literal :: "string \<Rightarrow> (jsval \<times> string) option" where
  "read_literal s =
     (if take 4 s = ''true'' then Some (JBool True, drop 4 s)
      else if take 5 s = ''false'' then Some (JBool False, drop 5 s)
      else if take 4 s = ''null'' then Some (JNull, drop 4 s)
      else read_number s)"

fun read_value :: "nat \<Rightarrow> string \<Rightarrow> (jsval \<times> string) option"
  and read_members :: "nat \<Rightarrow> (string \<times> jsval) list \<Rightarrow> string \<Rightarrow> (jsval \<times> string) option"
  and read_elements :: "nat \<Rightarrow> jsval list \<Rightarrow> string \<Rightarrow> (jsval \<times> string) option" where
  "read_value 0 s = None"
| "read_value (Suc n) s =
     (case dropWhile json_ws s of
        [] \<Rightarrow> None
      | c # r \<Rightarrow>
          if c = CHR ''{'' then
            (case dropWhile json_ws r of
               [] \<Rightarrow> None
             | d # r' \<Rightarrow> if d = CHR ''}'' then Some (JObj [], r') else read_members n [] (d # r'))
          else if c = CHR ''['' then
            (case dropWhile json_ws r of
               [] \<Rightarrow> None
             | d # r' \<Rightarrow> if d = CHR '']'' then Some (JArr [], r') else read_elements n [] (d # r'))
          else if c = CHR 0x22 then
            (case read_string [] r of None \<Rightarrow> None | Some (t, r') \<Rightarrow> Some (JStr t, r'))
          else read_literal (c # r))"
| "read_members 0 acc s = None"
| "read_members (Suc n) acc s =
     (case dropWhile json_ws s of
        [] \<Rightarrow> None
      | c # r \<Rightarrow>
          if c \<noteq> CHR 0x22 then None
          else
            (case read_string [] r of
               None \<Rightarrow> None
             | Some (k, r1) \<Rightarrow>
                 (case dropWhile json_ws r1 of
                    [] \<Rightarrow> None
                  | c2 # r2 \<Rightarrow>
                      if c2 \<noteq> CHR '':'' then None
                      else
                        (case read_value n r2 of
                           None \<Rightarrow> None
                         | Some (v, r3) \<Rightarrow>
                             (case dropWhile json_ws r3 of
                                [] \<Rightarrow> None
                              | c4 # r4 \<Rightarrow>
                                  if c4 = CHR '','' then read_members n (aset k v acc) r4
                                  else if c4 = CHR ''}'' then Some (JObj (aset k v acc), r4)
                                  else None)))))"
| "read_elements 0 acc s = None"
| "read_elements (Suc n) acc s =
     (case read_value n s of
        None \<Rightarrow> None
      | Some (v, r) \<Rightarrow>
          (case dropWhile json_ws r of
             [] \<Rightarrow> None
           | c # r' \<Rightarrow>
               if c = CHR '','' then read_elements n (acc @ [v]) r'
               else if c = CHR '']'' then Some (JArr (acc @ [v]), r')
               else None))"

definition read_json :: "string \<Rightarrow> jsval option" where
  "read_json s =
     (case read_value (Suc (length s)) s of
        None \<Rightarrow> None
      | Some (v, r) \<Rightarrow> if dropWhile json_ws r = [] then Some v else None)"

definition std_libs :: libs where
  "std_libs =
     \<lparr> semver = semver_core, JSON_parse = read_json,
       TOML_parse = (\<lambda>s. None), TOML_stringify = (\<lambda>d. None),
       yaml_load = (\<lambda>s. None), yaml_dump = (\<lambda>d. None) \<rparr>"

section \<open>Example data\<close>

definition version_file :: File where
  "version_file =
     \<lparr> content = ''6.1.0'' @ [CHR 0x0A], path = ''VERSION'', filename = ''VERSION'',
       extname = [] \<rparr>"

definition empty_version_file :: File where
  "empty_version_file =
     \<lparr> content = [], path = ''VERSION'', filename = ''VERSION'', extname = [] \<rparr>"

definition cargo_p0 :: PackageFile_p0 where
  "cargo_p0 =
     \<lparr> vfile = \<lparr> contents = ''[package]'', vpath = ''Cargo.toml'', vextname = ''.toml'' \<rparr>,
       name_p0 = JStr ''a'', version_p0 = JStr ''0.1.0'',
       pkg_p0 = JObj [(''package'', JObj [(''name'', JStr ''a''), (''version'', JStr ''0.1.0'')])] \<rparr>"

definition unpinned_pkg :: PackageFile where
  "unpinned_pkg =
     \<lparr> version = JStr ''1.0.0'', versionMajor = 1, versionMinor = 0, versionPatch = 0,
       versionPrerelease = None, deps = [],
       pkg = JObj [(''name'', JStr ''app''), (''version'', JStr ''1.0.0''),
                   (''dependencies'', JObj [(''lib'', JObj [(''path'', JStr ''../lib'')])])],
       file' = Some \<lparr> content = ''{}'', path = ''package.json'', filename = ''package'',
                       extname = ''.json'' \<rparr>,
       name = ''app'' \<rparr>"

definition fileless_pkg :: PackageFile where
  "fileless_pkg = unpinned_pkg\<lparr>file' := None\<rparr>"

definition nameless_dep_pkg :: PackageFile where
  "nameless_dep_pkg =
     unpinned_pkg\<lparr>pkg := JObj [(''name'', JStr ''app''), (''version'', JStr ''1.0.0''),
                               (''dependencies'', JObj [([], JObj [(''path'', JStr ''../lib'')])])]\<rparr>"

definition loaded_pkg :: "string \<Rightarrow> PackageFile" where
  "loaded_pkg v =
     \<lparr> version = JStr v, versionMajor = 1, versionMinor = 3, versionPatch = 0,
       versionPrerelease = None, deps = [],
       pkg = JObj [(''name'', JStr ''core''), (''version'', JStr v)],
       file' = Some \<lparr> content = ''{}'', path = ''core/package.json'', filename = ''package'',
                       extname = ''.json'' \<rparr>,
       name = ''core'' \<rparr>"

definition core_cmd :: pkgcmd where
  "core_cmd =
     \<lparr> cmd_pkg = ''core'', cmd_path = ''core'',
       getPublishedVersion = Some ''npm view core version'',
       publish = ''npm publish'', pkgFile = loaded_pkg ''1.3.0'' \<rparr>"

definition cli_cmd :: pkgcmd where
  "cli_cmd =
     \<lparr> cmd_pkg = ''cli'', cmd_path = ''cli'', getPublishedVersion = None,
       publish = ''npm publish'', pkgFile = loaded_pkg ''0.5.4'' \<rparr>"

definition odd_cmd :: pkgcmd where
  "odd_cmd =
     \<lparr> cmd_pkg = ''[object Object]'', cmd_path = ''odd'', getPublishedVersion = None,
       publish = ''npm publish'', pkgFile = loaded_pkg ''1.0.0'' \<rparr>"

definition docs_cmd :: pkgcmd where
  "docs_cmd =
     \<lparr> cmd_pkg = ''docs'', cmd_path = ''docs'', getPublishedVersion = None,
       publish = ''npm run deploy'', pkgFile = loaded_pkg ''2.0.0'' \<rparr>"

text \<open>The registry already has core 1.3.0. In \<open>registry\<close> every command exits with
  status 0; in \<open>closed_registry\<close> \<open>npm publish\<close> exits with status 1.\<close>

definition registry :: procs where
  "registry =
     \<lparr> stdout_chunks = (\<lambda>cmd cwd. if cmd = ''npm view core version''
                                   then [''1.3.0'' @ [CHR 0x0A]] else []),
       ending = (\<lambda>cmd cwd. Exit 0) \<rparr>"

definition closed_registry :: procs where
  "closed_registry =
     \<lparr> stdout_chunks = (\<lambda>cmd cwd. if cmd = ''npm view core version''
                                   then [''1.3.0'' @ [CHR 0x0A]] else []),
       ending = (\<lambda>cmd cwd. if cmd = ''npm publish'' then Exit 1 else Exit 0) \<rparr>"

definition any_toml :: "jsval \<Rightarrow> string option" where
  "any_toml d = Some ''text''"

definition idle :: world where
  "idle = \<lparr> disk = [], events = [] \<rparr>"

definition repo :: world where
  "repo =
     \<lparr> disk = [(''.changes/config.json'', ''{}''),
               (''.changes/readme.md'', ''# Changes''),
               (''.changes/fix-typo.md'', ''core: patch''),
               (''package.json'', ''{}'')],
       events = [] \<rparr>"

text \<open>Stand-ins for the other packages: the plan is the list of change files, every
  change releases \<open>core\<close> as a patch, and nothing is written.\<close>

definition plain_externals :: "(string list, unit) externals" where
  "plain_externals =
     \<lparr> assemble = (\<lambda>changes. Inr changes),
       releases = (\<lambda>plan. if plan = [] then [] else [(''core'', ''patch'')]),
       mergeIntoConfig = (\<lambda>plan config command w. (Inr [core_cmd, cli_cmd], w)),
       apply_changes = (\<lambda>commands config w. (Inr (), w)),
       fillChangelogs = (\<lambda>applied plan config w. (Inr (), w)) \<rparr>"

definition text_lines :: "string list \<Rightarrow> string" where
  "text_lines ls = concat (map (\<lambda>l. l @ [CHR 0x0A]) ls)"

definition compact_manifest :: string where
  \<open>compact_manifest =
     ''{"name":"app","version":"1.0.0","scripts":{"test":"jest"},"dependencies":{"lib":"^1.0.0"}}''\<close>

definition scripts_member :: string where
  \<open>scripts_member = ''"scripts":{"test":"jest"}''\<close>

definition written_manifest :: string where
  \<open>written_manifest =
     text_lines
       [''{'',
        ''  "name": "app",'',
        ''  "version": "1.0.1",'',
        ''  "scripts": {'',
        ''    "test": "jest"'',
        ''  },'',
        ''  "dependencies": {'',
        ''    "lib": "^1.0.0"'',
        ''  }'',
        ''}'']\<close>

definition compact_repo :: files where
  "compact_repo = [(''package.json'', compact_manifest)]"

definition app_file :: File where
  "app_file =
     \<lparr> content = compact_manifest, path = ''package.json'', filename = ''package'',
       extname = ''.json'' \<rparr>"

definition app_doc :: "string \<Rightarrow> (string \<times> jsval) list" where
  "app_doc v =
     [(''name'', JStr ''app''), (''version'', JStr v),
      (''scripts'', JObj [(''test'', JStr ''jest'')]),
      (''dependencies'', JObj [(''lib'', JStr ''^1.0.0'')])]"

definition app_loaded :: PackageFile where
  "app_loaded =
     \<lparr> version = JStr ''1.0.0'', versionMajor = 1, versionMinor = 0, versionPatch = 0,
       versionPrerelease = None, deps = [(''lib'', [(''dependencies'', JStr ''^1.0.0'')])],
       pkg = JObj (app_doc ''1.0.0''), file' = Some app_file, name = ''app'' \<rparr>"

definition version_repo :: files where
  "version_repo = [(''VERSION'', ''6.1.0'' @ [CHR 0x0A])]"

definition version_loaded :: PackageFile where
  "version_loaded =
     \<lparr> version = JStr ''6.1.0'', versionMajor = 6, versionMinor = 1, versionPatch = 0,
       versionPrerelease = None, deps = [],
       pkg = JObj [(''name'', JStr []), (''version'', JStr ''6.1.0'')],
       file' = Some version_file, name = ''general-package'' \<rparr>"

section \<open>Properties\<close>


lemma andThen_Inl [simp]: "andThen (Inl e) f = Inl e"
  by (simp add: andThen_def)

lemma andThen_Inr [simp]: "andThen (Inr x) f = f x"
  by (simp add: andThen_def)

lemma lib_call_simps [simp]:
  "lib_call nm None = Inl (LibError nm)" "lib_call nm (Some x) = Inr x"
  by (simp_all add: lib_call_def)

subsection \<open>The TOML branch of part_000\<close>

lemma module_scope_p0_file: "map_of module_scope_p0 ''file'' = None"
  by (simp add: module_scope_p0_def)

text \<open>C9: in the files module of part_000 the \<open>.toml\<close> branch of \<open>stringifyPkg\<close> reads
  the identifier \<open>file\<close>, which no binding in scope declares. Whatever the contents and
  whatever the TOML writer, the call throws a ReferenceError, so \<open>writePkgFile\<close> on a
  package file with extension \<open>.toml\<close> throws and writes nothing.\<close>

theorem toml_write_throws_p0:
  "stringifyPkg_p0 T newContents ''.toml'' = Inl (ReferenceError ''file is not defined'')
   \<and> (vextname (vfile packageFile) = ''.toml'' \<longrightarrow>
        writePkgFile_p0 T packageFile w = (Inl (ReferenceError ''file is not defined''), w))"
  by (simp add: stringifyPkg_p0_def writePkgFile_p0_def lookup_var_def module_scope_p0_file)

theorem toml_write_throws_p0_witness:
  "vextname (vfile cargo_p0) = ''.toml''
   \<and> writePkgFile_p0 any_toml cargo_p0
        \<lparr> disk = [(''Cargo.toml'', ''[package]'')], events = [] \<rparr>
      = (Inl (ReferenceError ''file is not defined''),
         \<lparr> disk = [(''Cargo.toml'', ''[package]'')], events = [] \<rparr>)"
  using toml_write_throws_p0 [of any_toml JNull cargo_p0
      "\<lparr> disk = [(''Cargo.toml'', ''[package]'')], events = [] \<rparr>"]
  by (simp add: cargo_p0_def)

subsection \<open>Files that hold a bare version\<close>

text \<open>C7, as the code has it: for a file whose extension is none of \<open>.toml\<close>,
  \<open>.json\<close>, \<open>.yml\<close>, \<open>.yaml\<close> and whose body is not empty, \<open>parsePkg\<close> fails with
  the error "not valid version" exactly when the trimmed body is not a valid version, and
  otherwise returns the trimmed body as the version. An empty body is rejected before
  that, with the error "<path> does not have any content".\<close>

theorem bare_version_parse:
  assumes "extname f \<notin> set [''.toml'', ''.json'', ''.yml'', ''.yaml'']"
  shows "parsePkg L f =
     (if content f = [] then Inl (Error (path f @ '' does not have any content''))
      else if semver L (trim (content f)) = None then Inl (Error ''not valid version'')
      else Inr \<lparr> version = JStr (trim (content f)),
                 versionMajor = major (the (semver L (trim (content f)))),
                 versionMinor = minor (the (semver L (trim (content f)))),
                 versionPatch = patch (the (semver L (trim (content f)))),
                 versionPrerelease = None, deps = [],
                 pkg = JObj [(''name'', JStr []), (''version'', JStr (trim (content f)))] \<rparr>)"
  using assms
  by (auto simp add: parsePkg_def semver_valid_def semver_of_def parsed_pkg_def Let_def)

theorem bare_version_parse_witness:
  "extname version_file \<notin> set [''.toml'', ''.json'', ''.yml'', ''.yaml'']
   \<and> parsePkg std_libs version_file =
       Inr \<lparr> version = JStr ''6.1.0'', versionMajor = 6, versionMinor = 1, versionPatch = 0,
             versionPrerelease = None, deps = [],
             pkg = JObj [(''name'', JStr []), (''version'', JStr ''6.1.0'')] \<rparr>"
proof -
  have e: "extname version_file \<notin> set [''.toml'', ''.json'', ''.yml'', ''.yaml'']"
    by (simp add: version_file_def)
  have t: "trim (content version_file) = ''6.1.0''"
    by (simp add: version_file_def trim_def is_ws_def)
  have v: "semver std_libs ''6.1.0'' = Some \<lparr> major = 6, minor = 1, patch = 0, prerelease = [] \<rparr>"
    by (simp add: std_libs_def semver_core_def numeric_id_def is_digit_def digits_value_def)
  have c: "content version_file \<noteq> []"
    by (simp add: version_file_def)
  show ?thesis
    using bare_version_parse [OF e, of std_libs] e by (simp add: t v c)
qed

text \<open>C7 as stated fails on an empty file: its trimmed body is not a valid version, and
  the error is not "not valid version".\<close>

theorem empty_body_counterexample:
  "extname empty_version_file \<notin> set [''.toml'', ''.json'', ''.yml'', ''.yaml'']
   \<and> \<not> semver_valid std_libs (trim (content empty_version_file))
   \<and> parsePkg std_libs empty_version_file = Inl (Error ''VERSION does not have any content'')
   \<and> parsePkg std_libs empty_version_file \<noteq> Inl (Error ''not valid version'')"
  by (simp add: parsePkg_def semver_valid_def std_libs_def semver_core_def trim_def
        numeric_id_def empty_version_file_def)

subsection \<open>Dependencies without a version\<close>

text \<open>C6, as the code has it: for a package that carries its file and whose document is an
  object, and for each of the three dependency tables \<open>dependencies\<close>,
  \<open>devDependencies\<close> and \<open>dev-dependencies\<close>: asking for the version of a dependency
  with a non-empty name whose entry in the table is an object without a \<open>version\<close>
  member throws an error whose message names the package and the dependency.\<close>

theorem missing_dependency_version_raises:
  assumes "file' p = Some f"
    and "(property, noun) \<in> set [(''dependencies'', ''dependency''),
            (''devDependencies'', ''devDependency''), (''dev-dependencies'', ''devDependency'')]"
    and "pkg p = JObj doc"
    and "map_of doc property = Some (JObj table)"
    and "dep \<noteq> []"
    and "map_of table dep = Some (JObj entry)"
    and "map_of entry ''version'' = None"
  shows "getPackageFileVersion p property (Some dep) =
           Inl (Error (name p @ '' has a '' @ noun @ '' on '' @ dep @ '', and '' @ dep
             @ '' does not have a version number. This cannot be published. Please pin it to a MAJOR.MINOR.PATCH reference.''))"
proof -
  have g: "get_dependency p property noun (Some dep) =
      Inl (Error (missing_version_message (name p) noun dep))"
    using assms(3-7) by (simp add: get_dependency_def own_def given_def)
  have k: "property = ''dependencies'' \<and> noun = ''dependency''
      \<or> property = ''devDependencies'' \<and> noun = ''devDependency''
      \<or> property = ''dev-dependencies'' \<and> noun = ''devDependency''"
    using assms(2) by simp
  have "getPackageFileVersion p property (Some dep) = get_dependency p property noun (Some dep)"
    using k assms(1,3) by (elim disjE conjE) (simp_all add: getPackageFileVersion_def)
  then show ?thesis
    by (simp add: g missing_version_message_def)
qed

theorem missing_dependency_version_raises_witness:
  "getPackageFileVersion unpinned_pkg ''dependencies'' (Some ''lib'') =
     Inl (Error ''app has a dependency on lib, and lib does not have a version number. This cannot be published. Please pin it to a MAJOR.MINOR.PATCH reference.'')"
proof -
  have 1: "file' unpinned_pkg = Some \<lparr> content = ''{}'', path = ''package.json'',
      filename = ''package'', extname = ''.json'' \<rparr>"
    by (simp add: unpinned_pkg_def)
  have 2: "(''dependencies'', ''dependency'') \<in> set [(''dependencies'', ''dependency''),
            (''devDependencies'', ''devDependency''), (''dev-dependencies'', ''devDependency'')]"
    by simp
  have 3: "pkg unpinned_pkg = JObj [(''name'', JStr ''app''), (''version'', JStr ''1.0.0''),
                   (''dependencies'', JObj [(''lib'', JObj [(''path'', JStr ''../lib'')])])]"
    by (simp add: unpinned_pkg_def)
  have 4: "map_of [(''name'', JStr ''app''), (''version'', JStr ''1.0.0''),
                   (''dependencies'', JObj [(''lib'', JObj [(''path'', JStr ''../lib'')])])]
             ''dependencies'' = Some (JObj [(''lib'', JObj [(''path'', JStr ''../lib'')])])"
    by simp
  have 5: "''lib'' \<noteq> []" by simp
  have 6: "map_of [(''lib'', JObj [(''path'', JStr ''../lib'')])] ''lib''
             = Some (JObj [(''path'', JStr ''../lib'')])"
    by simp
  have 7: "map_of [(''path'', JStr ''../lib'')] ''version'' = None" by simp
  have n: "name unpinned_pkg = ''app''"
    by (simp add: unpinned_pkg_def)
  show ?thesis
    using missing_dependency_version_raises [OF 1 2 3 4 5 6 7] by (simp add: n)
qed


text \<open>C6 as stated fails behind the two guards of the getter: for a package without its
  file, and for a dependency whose name is the empty string, the getter returns the empty
  string although the entry is an object without a version.\<close>

theorem silent_empty_string_counterexample:
  "file' fileless_pkg = None
   \<and> pkg fileless_pkg =
       JObj [(''name'', JStr ''app''), (''version'', JStr ''1.0.0''),
             (''dependencies'', JObj [(''lib'', JObj [(''path'', JStr ''../lib'')])])]
   \<and> getPackageFileVersion fileless_pkg ''dependencies'' (Some ''lib'') = Inr (JStr [])
   \<and> pkg nameless_dep_pkg =
       JObj [(''name'', JStr ''app''), (''version'', JStr ''1.0.0''),
             (''dependencies'', JObj [([], JObj [(''path'', JStr ''../lib'')])])]
   \<and> getPackageFileVersion nameless_dep_pkg ''dependencies'' (Some []) = Inr (JStr [])"
  by (simp add: getPackageFileVersion_def get_dependency_def fileless_pkg_def
        nameless_dep_pkg_def unpinned_pkg_def given_def own_def)

subsection \<open>The publish loop\<close>

lemma emit_nil [simp]: "emit [] w = w"
  by (simp add: emit_def)

lemma disk_emit [simp]: "disk (emit es w) = disk w"
  by (simp add: emit_def)

lemma aset_key_empty: "aset k v [] = [(k, v)]"
  by (simp add: aset_def)

lemma aset_key_same: "aset k v [(k, v)] = [(k, v)]"
  by (simp add: aset_def)

lemma supervise_exit_0: "ending P command cwd = Exit 0 \<Longrightarrow> supervise P command cwd = None"
  by (simp add: supervise_def)

lemma publish_pkg_skip:
  assumes "given (getPublishedVersion c)"
    and "supervise P (the (getPublishedVersion c)) (cmd_path c) = None"
    and "probe_version P c = Some v"
    and "version (pkgFile c) = JStr v"
  shows "publish_pkg P c published w =
     (Done published,
      emit [Console (cmd_pkg c @ ''@'' @ v @ '' is already published. Skipping.'')]
        (emit (probe_events c) w))"
  using assms by (simp add: publish_pkg_def probe_events_def)

lemma publish_pkg_run:
  assumes "invokes_publish P c"
  shows "publish_pkg P c published w =
     (case supervise P (publish c) (cmd_path c) of
        Some e \<Rightarrow> (Threw e, emit (publish_events c) (emit (probe_events c) w))
      | None \<Rightarrow> (Done (aset (pkgcmd_key c) (JBool True) published),
                 emit (publish_events c) (emit (probe_events c) w)))"
  using assms
  by (auto simp add: publish_pkg_def invokes_publish_def probe_events_def publish_events_def
        split: option.splits if_splits)

lemma publish_pkg_Done:
  assumes "publish_pkg P c published w = (Done published', w')"
  shows "published' = (if invokes_publish P c then aset (pkgcmd_key c) (JBool True) published
                       else published)"
  using assms
  by (auto simp add: publish_pkg_def invokes_publish_def Let_def split: option.splits if_splits)

lemma publish_pkg_disk: "disk (snd (publish_pkg P c published w)) = disk w"
  by (auto simp add: publish_pkg_def Let_def split: option.splits)

lemma publish_loop_disk: "disk (snd (publish_loop P cs published w)) = disk w"
proof (induction cs arbitrary: published w)
  case Nil
  then show ?case by simp
next
  case (Cons c cs)
  obtain r w' where s: "publish_pkg P c published w = (r, w')"
    by (cases "publish_pkg P c published w")
  have d: "disk w' = disk w"
    using publish_pkg_disk [of P c published w] s by simp
  show ?case
    using s d Cons.IH by (cases r) simp_all
qed

lemma publish_loop_keys:
  assumes "publish_loop P cs published w = (Done published', w')"
    and "published = [] \<or> published = [(''[object Object]'', JBool True)]"
  shows "(published' = [] \<or> published' = [(''[object Object]'', JBool True)])
         \<and> (published = [(''[object Object]'', JBool True)] \<or> (\<exists>c\<in>set cs. invokes_publish P c)
              \<longrightarrow> published' = [(''[object Object]'', JBool True)])"
  using assms
proof (induction cs arbitrary: published w)
  case Nil
  then show ?case by auto
next
  case (Cons c cs)
  obtain r w1 where s: "publish_pkg P c published w = (r, w1)"
    by (cases "publish_pkg P c published w")
  from Cons.prems(1) s obtain p1 where
    r: "r = Done p1" and rest: "publish_loop P cs p1 w1 = (Done published', w')"
    by (cases r) simp_all
  have p1: "p1 = (if invokes_publish P c then aset (pkgcmd_key c) (JBool True) published
                  else published)"
    using s r by (intro publish_pkg_Done) simp
  have inv: "p1 = [] \<or> p1 = [(''[object Object]'', JBool True)]"
    using p1 Cons.prems(2) by (auto simp add: pkgcmd_key_def aset_key_empty aset_key_same)
  have run: "invokes_publish P c \<Longrightarrow> p1 = [(''[object Object]'', JBool True)]"
    using p1 Cons.prems(2) by (auto simp add: pkgcmd_key_def aset_key_empty aset_key_same)
  have keep: "published = [(''[object Object]'', JBool True)] \<Longrightarrow> p1 = [(''[object Object]'', JBool True)]"
    using p1 by (auto simp add: pkgcmd_key_def aset_key_same)
  from Cons.IH [OF rest inv] run keep show ?case
    by auto
qed

text \<open>C3, as the code has it: when a package has a probe command, the probe exits with
  status 0, and the version assembled from its output equals the version of the package
  file, the loop goes on to the next package: the publish command is not spawned, a line
  is logged, and the object that the run returns is left as it was (the skip is not
  recorded in it).\<close>

theorem already_published_is_skipped:
  assumes "given (getPublishedVersion c)"
    and "ending P (the (getPublishedVersion c)) (cmd_path c) = Exit 0"
    and "probe_version P c = Some v"
    and "version (pkgFile c) = JStr v"
  shows "\<not> invokes_publish P c
    \<and> publish_loop P (c # cs) published w =
        publish_loop P cs published
          (emit [Console (cmd_pkg c @ ''@'' @ v @ '' is already published. Skipping.'')]
             (emit [Spawn (the (getPublishedVersion c)) (cmd_path c) ''pipe''] w))"
  using assms publish_pkg_skip [OF assms(1) supervise_exit_0 [OF assms(2)] assms(3,4), of published w]
  by (simp add: invokes_publish_def probe_events_def)

theorem already_published_is_skipped_witness:
  "ending registry (the (getPublishedVersion core_cmd)) (cmd_path core_cmd) = Exit 0
   \<and> publish_loop registry [core_cmd] [] idle =
     (Done [], \<lparr> disk = [],
                 events = [Spawn ''npm view core version'' ''core'' ''pipe'',
                           Console ''core@1.3.0 is already published. Skipping.''] \<rparr>)"
proof -
  have g: "given (getPublishedVersion core_cmd)"
    by (simp add: core_cmd_def given_def)
  have e: "ending registry (the (getPublishedVersion core_cmd)) (cmd_path core_cmd) = Exit 0"
    by (simp add: registry_def)
  have v: "probe_version registry core_cmd = Some ''1.3.0''"
    by (simp add: probe_version_def registry_def core_cmd_def trim_def is_ws_def)
  have f: "version (pkgFile core_cmd) = JStr ''1.3.0''"
    by (simp add: core_cmd_def loaded_pkg_def)
  show ?thesis
    using already_published_is_skipped [OF g e v f, of "[]" "[]" idle] e
    by (simp add: core_cmd_def emit_def idle_def)
qed

text \<open>C3 as stated fails: the probe of \<open>core\<close> exits with status 0 and reports the
  version of its package file, and the object the run returns is empty, with no record
  of the skipped package.\<close>

theorem skip_not_recorded_counterexample:
  "given (getPublishedVersion core_cmd)
   \<and> ending registry (the (getPublishedVersion core_cmd)) (cmd_path core_cmd) = Exit 0
   \<and> probe_version registry core_cmd = Some ''1.3.0''
   \<and> version (pkgFile core_cmd) = JStr ''1.3.0''
   \<and> publish_loop registry [core_cmd] [] idle =
       (Done [], \<lparr> disk = [],
                   events = [Spawn ''npm view core version'' ''core'' ''pipe'',
                             Console ''core@1.3.0 is already published. Skipping.''] \<rparr>)"
  by (simp add: publish_pkg_def probe_version_def registry_def core_cmd_def trim_def is_ws_def
        loaded_pkg_def given_def emit_def idle_def supervise_def)

text \<open>C4, as the code has it: for every package whose publish command is run, the entry
  \<open>true\<close> is stored, and the loop goes on with the remaining packages, exactly when the
  process exits with status 0. With any other status the run is rejected with the error
  \<open>'<command>' exited with non-zero exit code\<close>, and with an error event of the process
  it is rejected with that error: nothing is stored and the remaining packages are not
  processed.\<close>

theorem failed_publish_rejects_run:
  assumes "invokes_publish P c"
  shows "publish_loop P (c # cs) published w =
     (case ending P (publish c) (cmd_path c) of
        Exit code \<Rightarrow>
          if code = 0
          then publish_loop P cs (aset (pkgcmd_key c) (JBool True) published)
                 (emit (publish_events c) (emit (probe_events c) w))
          else (Threw (Error ([CHR 0x27] @ trim (publish c) @ [CHR 0x27]
                               @ '' exited with non-zero exit code'')),
                emit (publish_events c) (emit (probe_events c) w))
      | SpawnError m \<Rightarrow>
          (Threw (Error m), emit (publish_events c) (emit (probe_events c) w)))"
  using publish_pkg_run [OF assms, of published w]
  by (simp add: supervise_def split: proc_end.splits)

theorem failed_publish_rejects_run_witness:
  "invokes_publish closed_registry cli_cmd
   \<and> publish_loop closed_registry [cli_cmd, docs_cmd] [] idle =
       (Threw (Error (CHR 0x27 # ''npm publish'' @ CHR 0x27 # '' exited with non-zero exit code'')),
        \<lparr> disk = [],
          events = [Console ''publishing cli with npm publish'',
                    Spawn ''npm publish'' ''cli'' ''inherit''] \<rparr>)"
proof -
  have i: "invokes_publish closed_registry cli_cmd"
    by (simp add: invokes_publish_def cli_cmd_def given_def)
  have t: "trim ''npm publish'' = ''npm publish''"
    by (simp add: trim_def is_ws_def)
  show ?thesis
    using failed_publish_rejects_run [OF i, of "[docs_cmd]" "[]" idle] i
    by (simp add: cli_cmd_def closed_registry_def emit_def idle_def publish_events_def
          probe_events_def given_def t)
qed

text \<open>C4 as stated fails: the publish command of \<open>cli\<close> exits with status 1, the run is
  rejected, and the publish command of \<open>docs\<close>, the next package, is never spawned.\<close>

theorem failed_publish_aborts_counterexample:
  "ending closed_registry (publish cli_cmd) (cmd_path cli_cmd) = Exit 1
   \<and> ending closed_registry (publish docs_cmd) (cmd_path docs_cmd) = Exit 0
   \<and> publish_loop closed_registry [cli_cmd, docs_cmd] [] idle =
       (Threw (Error (CHR 0x27 # ''npm publish'' @ CHR 0x27 # '' exited with non-zero exit code'')),
        \<lparr> disk = [],
          events = [Console ''publishing cli with npm publish'',
                    Spawn ''npm publish'' ''cli'' ''inherit''] \<rparr>)"
  by (simp add: publish_pkg_def closed_registry_def cli_cmd_def docs_cmd_def given_def
        emit_def idle_def supervise_def trim_def is_ws_def)

text \<open>C10, as the code has it: the key of every stored entry is the string
  \<open>[object Object]\<close>, the coercion of the package command, whatever the names of the packages.
  When the run returns and the publish command of at least one package was run, the
  returned object is exactly that one entry: the entries of all published packages fall
  on this key, and there is no entry under any name other than this string.\<close>

theorem published_has_one_key:
  assumes "publish_loop P cs [] w = (Done published, w')"
    and "\<exists>c\<in>set cs. invokes_publish P c"
  shows "published = [(''[object Object]'', JBool True)]
         \<and> (\<forall>n. n \<noteq> ''[object Object]'' \<longrightarrow> map_of published n = None)"
  using publish_loop_keys [OF assms(1)] assms(2) by auto

theorem published_has_one_key_witness:
  "publish_loop registry [core_cmd, cli_cmd, docs_cmd] [] idle
     = (Done [(''[object Object]'', JBool True)],
        \<lparr> disk = [],
          events = [Spawn ''npm view core version'' ''core'' ''pipe'',
                    Console ''core@1.3.0 is already published. Skipping.'',
                    Console ''publishing cli with npm publish'',
                    Spawn ''npm publish'' ''cli'' ''inherit'',
                    Console ''publishing docs with npm run deploy'',
                    Spawn ''npm run deploy'' ''docs'' ''inherit''] \<rparr>)
   \<and> (\<exists>c\<in>set [core_cmd, cli_cmd, docs_cmd]. invokes_publish registry c)
   \<and> map_of [(''[object Object]'', JBool True)] ''cli'' = None
   \<and> map_of [(''[object Object]'', JBool True)] ''docs'' = None"
proof -
  have r: "publish_loop registry [core_cmd, cli_cmd, docs_cmd] [] idle
     = (Done [(''[object Object]'', JBool True)],
        \<lparr> disk = [],
          events = [Spawn ''npm view core version'' ''core'' ''pipe'',
                    Console ''core@1.3.0 is already published. Skipping.'',
                    Console ''publishing cli with npm publish'',
                    Spawn ''npm publish'' ''cli'' ''inherit'',
                    Console ''publishing docs with npm run deploy'',
                    Spawn ''npm run deploy'' ''docs'' ''inherit''] \<rparr>)"
    by (simp add: publish_pkg_def probe_version_def registry_def core_cmd_def cli_cmd_def
          docs_cmd_def trim_def is_ws_def loaded_pkg_def given_def pkgcmd_key_def
          aset_key_empty aset_key_same emit_def idle_def supervise_def)
  have i: "\<exists>c\<in>set [core_cmd, cli_cmd, docs_cmd]. invokes_publish registry c"
    by (simp add: invokes_publish_def cli_cmd_def given_def)
  show ?thesis
    using published_has_one_key [OF r i] r i by simp
qed

text \<open>C10 as stated fails for a package whose name is that string: its publish command
  exits with status 0, the run returns, and the returned object has an entry under the
  name of the package.\<close>

theorem entry_under_name_counterexample:
  "invokes_publish registry odd_cmd
   \<and> ending registry (publish odd_cmd) (cmd_path odd_cmd) = Exit 0
   \<and> cmd_pkg odd_cmd = ''[object Object]''
   \<and> publish_loop registry [odd_cmd] [] idle =
       (Done [(''[object Object]'', JBool True)],
        \<lparr> disk = [],
          events = [Console ''publishing [object Object] with npm publish'',
                    Spawn ''npm publish'' ''odd'' ''inherit''] \<rparr>)
   \<and> map_of [(''[object Object]'', JBool True)] (cmd_pkg odd_cmd) = Some (JBool True)"
  by (simp add: invokes_publish_def publish_pkg_def odd_cmd_def given_def pkgcmd_key_def
        aset_key_empty emit_def idle_def supervise_def registry_def)

subsection \<open>Change files\<close>

lemma covector_read_only:
  assumes "command \<noteq> ''version''" and "command \<noteq> ''publish''"
  shows "disk (snd (covector L X P command w)) = disk w"
  using assms
  by (auto simp add: covector_def Let_def split: sum.splits)

lemma covector_publish_disk:
  assumes "\<And>plan cfg w'. disk (snd (mergeIntoConfig X plan cfg ''publish'' w')) = disk w'"
  shows "disk (snd (covector L X P ''publish'' w)) = disk w"
proof (cases "configFile L (disk w)")
  case (Inl e)
  then show ?thesis by (simp add: covector_def)
next
  case (Inr config)
  show ?thesis
  proof (cases "assemble X (changeFiles (disk w))")
    case (Inl e)
    then show ?thesis using Inr by (simp add: covector_def)
  next
    case ok: (Inr plan)
    obtain r w2 where m: "mergeIntoConfig X plan config ''publish'' (raceTime w) = (r, w2)"
      by (cases "mergeIntoConfig X plan config ''publish'' (raceTime w)")
    have d2: "disk w2 = disk w"
      using assms [of plan config "raceTime w"] m by (simp add: raceTime_def)
    show ?thesis
    proof (cases r)
      case (Inl e)
      then show ?thesis using Inr ok m d2 by (simp add: covector_def)
    next
      case cmds: (Inr commands)
      obtain q w3 where l: "publish_loop P commands [] w2 = (q, w3)"
        by (cases "publish_loop P commands [] w2")
      have d3: "disk w3 = disk w"
        using publish_loop_disk [of P commands "[]" w2] l d2 by simp
      show ?thesis
        using Inr ok m cmds l d3 by (cases q) (simp_all add: covector_def)
    qed
  qed
qed

text \<open>C8: \<open>run.js\<close> deletes no change file in a run that is not a \<open>version\<close> run. For
  every input, the files on disk after a \<open>status\<close> run are the files before it, with
  the same contents, and so it is after every run whose command is neither \<open>version\<close>
  nor \<open>publish\<close>: \<open>changeFiles\<close> only lists the change files, and nothing else in
  these runs writes. In a \<open>publish\<close> run the files are as \<open>mergeIntoConfig\<close> leaves
  them; when that function writes nothing they are the files before the run.\<close>

theorem read_only_runs_keep_files:
  "disk (snd (covector L X P ''status'' w)) = disk w
   \<and> (command \<noteq> ''version'' \<and> command \<noteq> ''publish''
        \<longrightarrow> disk (snd (covector L X P command w)) = disk w)
   \<and> ((\<forall>plan cfg w'. disk (snd (mergeIntoConfig X plan cfg ''publish'' w')) = disk w')
        \<longrightarrow> disk (snd (covector L X P ''publish'' w)) = disk w)"
  using covector_read_only [of "''status''" L X P w] covector_read_only [of command L X P w]
    covector_publish_disk [of X L P w]
  by simp

theorem read_only_runs_keep_files_witness:
  "changeFiles (disk repo) = [''.changes/fix-typo.md'']
   \<and> fst (covector std_libs plain_externals registry ''status'' repo)
       = Message ''There are 1 changes which include core with patch''
   \<and> disk (snd (covector std_libs plain_externals registry ''status'' repo)) = disk repo
   \<and> ''config'' \<noteq> ''version'' \<and> ''config'' \<noteq> ''publish''
   \<and> disk (snd (covector std_libs plain_externals registry ''config'' repo)) = disk repo
   \<and> (\<forall>plan cfg w'. disk (snd (mergeIntoConfig plain_externals plan cfg ''publish'' w')) = disk w')
   \<and> disk (snd (covector std_libs plain_externals registry ''publish'' repo)) = disk repo"
proof -
  have c: "changeFiles (disk repo) = [''.changes/fix-typo.md'']"
    by code_simp
  have m: "fst (covector std_libs plain_externals registry ''status'' repo)
       = Message ''There are 1 changes which include core with patch''"
    by code_simp
  have h: "\<forall>plan cfg w'. disk (snd (mergeIntoConfig plain_externals plan cfg ''publish'' w')) = disk w'"
    by (simp add: plain_externals_def)
  show ?thesis
    using read_only_runs_keep_files [of std_libs plain_externals registry repo "''config''"] c m h
    by simp
qed

subsection \<open>Setting the version of a manifest\<close>

lemma digit_char_digit: "d < 10 \<Longrightarrow> digit_char d \<in> set ''0123456789''"
  unfolding digit_char_def by (rule nth_mem) simp

lemma show_nat_last: "show_nat n \<noteq> [] \<and> last (show_nat n) \<in> set ''0123456789''"
proof (cases "n < 10")
  case True
  then have "show_nat n = [digit_char n]" by (subst show_nat.simps) simp
  then show ?thesis using digit_char_digit [OF True] by simp
next
  case False
  then have "show_nat n = show_nat (n div 10) @ [digit_char (n mod 10)]"
    by (subst show_nat.simps) simp
  then show ?thesis using digit_char_digit [of "n mod 10"] by simp
qed

lemma own_indexed_named:
  assumes "last k \<notin> set ''0123456789''"
  shows "own (indexed xs) k = JUndefined"
proof -
  have "k \<notin> set (map show_nat [0..<length xs])"
    using assms show_nat_last by auto
  then have m: "map_of (zip (map show_nat [0..<length xs]) xs) k = None"
    by (subst map_of_zip_is_None) simp_all
  show ?thesis unfolding own_def indexed_def m by simp
qed

lemma get_prop_named:
  assumes "last k \<notin> set ''0123456789''" and "k \<noteq> ''length''"
    and "get_prop d k = Inr x" and "x \<noteq> JUndefined"
  shows "\<exists>kvs. d = JObj kvs \<and> map_of kvs k = Some x"
  using assms(2-4) own_indexed_named [OF assms(1)]
  by (cases d) (auto simp add: own_def split: option.splits)

lemma map_of_replace_same:
  "k \<in> fst ` set kvs \<Longrightarrow> map_of (map (\<lambda>e. if fst e = k then (k, v) else e) kvs) k = Some v"
  by (induction kvs) auto

lemma map_of_replace_other:
  "k' \<noteq> k \<Longrightarrow> map_of (map (\<lambda>e. if fst e = k then (k, v) else e) kvs) k' = map_of kvs k'"
  by (induction kvs) auto

lemma map_of_aset_same: "map_of (aset k v kvs) k = Some v"
proof (cases "k \<in> fst ` set kvs")
  case True
  then show ?thesis by (simp add: aset_def map_of_replace_same)
next
  case False
  then have "map_of kvs k = None" by (simp add: map_of_eq_None_iff)
  then show ?thesis using False by (simp add: aset_def map_add_def)
qed

lemma map_of_aset_other: "k' \<noteq> k \<Longrightarrow> map_of (aset k v kvs) k' = map_of kvs k'"
  by (auto simp add: aset_def map_of_replace_other map_add_def split: option.splits)

lemma own_aset_same: "own (aset k v kvs) k = v"
  by (simp add: own_def map_of_aset_same)

lemma own_aset_other: "k' \<noteq> k \<Longrightarrow> own (aset k v kvs) k' = own kvs k'"
  by (simp add: own_def map_of_aset_other)

lemma same_but_replace: "same_but k kvs (map (\<lambda>e. if fst e = k then (k, v) else e) kvs)"
  unfolding same_but_def by (induction kvs) auto

lemma same_but_aset: "map_of kvs k = Some x \<Longrightarrow> same_but k kvs (aset k v kvs)"
  using same_but_replace [of k kvs v] map_of_eq_None_iff [of kvs k]
  by (auto simp add: aset_def)

lemma keyDeps_types_cong:
  assumes "\<And>t. t \<in> set ts \<Longrightarrow> get_prop a t = get_prop b t"
  shows "keyDeps_types ts a ds = keyDeps_types ts b ds"
  using assms
proof (induction ts arbitrary: ds)
  case Nil
  then show ?case by simp
next
  case (Cons t ts)
  have "keyDeps_types ts a = keyDeps_types ts b"
    using Cons by (intro ext) simp
  then show ?case using Cons.prems by simp
qed

lemma keyDeps_aset:
  assumes "k \<notin> set [''dependencies'', ''devDependencies'', ''dev-dependencies'']"
  shows "keyDeps (JObj (aset k x kvs)) = keyDeps (JObj kvs)"
  unfolding keyDeps_def
  by (rule keyDeps_types_cong) (use assms in \<open>auto simp add: own_aset_other\<close>)

lemma andThen_eq_Inr: "andThen m f = Inr y \<longleftrightarrow> (\<exists>x. m = Inr x \<and> f x = Inr y)"
  by (cases m) simp_all

lemma lib_call_eq_Inr: "lib_call nm r = Inr x \<longleftrightarrow> r = Some x"
  by (cases r) simp_all

lemma semver_of_eq_Inr: "semver_of L x = Inr sv \<longleftrightarrow> (\<exists>s. x = JStr s \<and> semver L s = Some sv)"
  by (cases x) (auto simp add: semver_of_def split: option.splits)

lemma readPkgFile_path:
  "\<exists>pth. \<forall>fs. readPkgFile L fs fl cfg nick = read_at L fs pth nick"
proof -
  define pth where "pth =
     (if given fl then the fl
      else
        (case cfg of
           None \<Rightarrow> path_join [] ''package.json''
         | Some c \<Rightarrow>
             if given (cfg_path c) \<and> given (packageFileName c)
             then path_join (the (cfg_path c)) (the (packageFileName c))
             else path_join (if given (cfg_path c) then the (cfg_path c) else [])
                    (if given (manager c) then
                         (if contains_str ''rust'' (the (manager c)) then ''Cargo.toml''
                          else if contains_str ''dart'' (the (manager c))
                                  \<or> contains_str ''flutter'' (the (manager c))
                          then ''pubspec.yaml''
                          else ''package.json'')
                       else ''package.json'')))"
  have "\<forall>fs. readPkgFile L fs fl cfg nick = read_at L fs pth nick"
    by (simp add: readPkgFile_def pth_def Let_def split: option.splits)
  then show ?thesis ..
qed

lemma read_at_eq_Inr:
  "read_at L fs pth nick = Inr p \<longleftrightarrow>
     (\<exists>c m. map_of fs pth = Some c
        \<and> parsePkg L \<lparr> content = c, path = pth, filename = path_name pth, extname = path_ext pth \<rparr> = Inr m
        \<and> p = PkgMinimum.extend m (PackageFile.fields
              (Some \<lparr> content = c, path = pth, filename = path_name pth, extname = path_ext pth \<rparr>) nick))"
  by (auto simp add: read_at_def loadFile_def andThen_eq_Inr split: option.splits)

lemma extend_sel [simp]:
  "pkg (PkgMinimum.extend m (PackageFile.fields f n)) = pkg m"
  "file' (PkgMinimum.extend m (PackageFile.fields f n)) = f"
  "name (PkgMinimum.extend m (PackageFile.fields f n)) = n"
  "version (PkgMinimum.extend m (PackageFile.fields f n)) = version m"
  "deps (PkgMinimum.extend m (PackageFile.fields f n)) = deps m"
  by (simp_all add: PkgMinimum.defs PackageFile.defs)

lemma named_keys:
  "last ''version'' \<notin> set ''0123456789''" "''version'' \<noteq> ''length''"
  "last ''package'' \<notin> set ''0123456789''" "''package'' \<noteq> ''length''"
  by simp_all

lemma parsePkg_json_shape:
  assumes "parsePkg L f = Inr m" and "extname f = ''.json''"
  shows "\<exists>kvs s ds. pkg m = JObj kvs \<and> map_of kvs ''version'' = Some (JStr s)
           \<and> keyDeps (JObj kvs) = Inr ds"
proof -
  from assms obtain parsed s sv ds where
    g: "get_prop parsed ''version'' = Inr (JStr s)" and k: "keyDeps parsed = Inr ds"
    and m: "m = parsed_pkg (JStr s) sv (semver_prerelease sv) ds parsed"
    by (auto simp add: parsePkg_def andThen_eq_Inr lib_call_eq_Inr semver_of_eq_Inr
          split: if_splits)
  from get_prop_named [OF named_keys(1,2) g] obtain kvs where
    "parsed = JObj kvs" "map_of kvs ''version'' = Some (JStr s)" by auto
  then show ?thesis using k m by (auto simp add: parsed_pkg_def)
qed

lemma parsePkg_toml_shape:
  assumes "parsePkg L f = Inr m" and "extname f = ''.toml''"
  shows "\<exists>kvs pk s ds. pkg m = JObj kvs \<and> map_of kvs ''package'' = Some (JObj pk)
           \<and> map_of pk ''version'' = Some (JStr s) \<and> keyDeps (JObj kvs) = Inr ds"
proof -
  from assms obtain parsed package s sv ds where
    gp: "get_prop parsed ''package'' = Inr package"
    and g: "get_prop package ''version'' = Inr (JStr s)" and k: "keyDeps parsed = Inr ds"
    and m: "m = parsed_pkg (JStr s) sv (semver_prerelease sv) ds parsed"
    by (auto simp add: parsePkg_def andThen_eq_Inr lib_call_eq_Inr semver_of_eq_Inr
          split: if_splits)
  from get_prop_named [OF named_keys(1,2) g] obtain pk where
    pk: "package = JObj pk" "map_of pk ''version'' = Some (JStr s)" by auto
  from get_prop_named [OF named_keys(3,4) gp] pk obtain kvs where
    "parsed = JObj kvs" "map_of kvs ''package'' = Some (JObj pk)" by auto
  then show ?thesis using k m pk by (auto simp add: parsed_pkg_def)
qed

lemma parsePkg_yaml_shape:
  assumes "parsePkg L f = Inr m" and "extname f = ''.yml'' \<or> extname f = ''.yaml''"
  shows "\<exists>kvs s ds. pkg m = JObj kvs \<and> map_of kvs ''version'' = Some (JStr s)
           \<and> truthy (own kvs ''name'') \<and> keyDeps (JObj kvs) = Inr ds"
proof -
  from assms obtain parsed s sv ds where
    g: "get_prop parsed ''version'' = Inr (JStr s)" and k: "keyDeps parsed = Inr ds"
    and m: "m = parsed_pkg (JStr s) sv None ds parsed"
    and c: "(if truthy parsed
                 then andThen (get_prop parsed ''name'') (\<lambda>n.
                      if \<not> truthy n then Inr True
                      else andThen (get_prop parsed ''version'') (\<lambda>v. Inr (\<not> truthy v)))
                 else Inr False) = Inr False"
    by (auto simp add: parsePkg_def andThen_eq_Inr lib_call_eq_Inr semver_of_eq_Inr
          split: if_splits)
  from get_prop_named [OF named_keys(1,2) g] obtain kvs where
    o: "parsed = JObj kvs" "map_of kvs ''version'' = Some (JStr s)" by auto
  have "truthy (own kvs ''name'')"
    using c o by (auto split: if_splits)
  then show ?thesis using k m o by (auto simp add: parsed_pkg_def)
qed

lemma parsePkg_bare_shape:
  assumes "parsePkg L f = Inr m"
    and "extname f \<notin> set [''.toml'', ''.json'', ''.yml'', ''.yaml'']"
  shows "pkg m = JObj [(''name'', JStr []), (''version'', JStr (trim (content f)))]"
  using assms
  by (auto simp add: parsePkg_def Let_def andThen_eq_Inr parsed_pkg_def split: if_splits)

lemma set_version_top:
  assumes "file' p = Some f" and "extname f \<noteq> ''.toml''" and "pkg p = JObj kvs"
  shows "setPackageFileVersion p v ''version'' None
           = Inr (p\<lparr>pkg := JObj (aset ''version'' (JStr v) kvs)\<rparr>)"
  using assms by (simp add: setPackageFileVersion_def)

lemma set_version_toml:
  assumes "file' p = Some f" and "extname f = ''.toml''" and "pkg p = JObj kvs"
    and "map_of kvs ''package'' = Some (JObj pk)"
  shows "setPackageFileVersion p v ''version'' None
           = Inr (p\<lparr>pkg := JObj (aset ''package'' (JObj (aset ''version'' (JStr v) pk)) kvs)\<rparr>)"
  using assms by (simp add: setPackageFileVersion_def own_def put_back_def)

lemma round_trip_core:
  fixes f :: File
  assumes parse: "parsePkg L f = Inr m"
    and p: "p = PkgMinimum.extend m (PackageFile.fields (Some f) nick)"
    and v: "semver L v \<noteq> None" "v \<noteq> []" "trim v = v"
    and rb: "\<And>p'. setPackageFileVersion p v ''version'' None = Inr p'
                \<Longrightarrow> reads_back L (extname f) (pkg p')"
  shows "\<exists>p' s m'. setPackageFileVersion p v ''version'' None = Inr p'
        \<and> file' p' = Some f \<and> name p' = nick
        \<and> stringifyPkg L (pkg p') (extname f) = Inr (JStr s)
        \<and> parsePkg L (f\<lparr>content := s\<rparr>) = Inr m'
        \<and> getPackageFileVersion
             (PkgMinimum.extend m' (PackageFile.fields (Some (f\<lparr>content := s\<rparr>)) nick))
             ''version'' None = Inr (JStr v)"
proof -
  from v(1) obtain sv where sv: "semver L v = Some sv" by auto
  have fp: "file' p = Some f" and np: "name p = nick" and pp: "pkg p = pkg m"
    using p by simp_all
  consider (toml) "extname f = ''.toml''" | (json) "extname f = ''.json''"
    | (yaml) "extname f = ''.yml'' \<or> extname f = ''.yaml''"
    | (bare) "extname f \<notin> set [''.toml'', ''.json'', ''.yml'', ''.yaml'']"
    by auto
  then show ?thesis
  proof cases
    case json
    from parsePkg_json_shape [OF parse json] obtain kvs s0 ds where
      sh: "pkg m = JObj kvs" "map_of kvs ''version'' = Some (JStr s0)"
          "keyDeps (JObj kvs) = Inr ds" by auto
    define d where "d = JObj (aset ''version'' (JStr v) kvs)"
    have st: "setPackageFileVersion p v ''version'' None = Inr (p\<lparr>pkg := d\<rparr>)"
      unfolding d_def using set_version_top [OF fp _ ] json pp sh(1) by simp
    have rd: "JSON_parse L (JSON_stringify d @ [CHR 0x0A]) = Some d"
      using rb [OF st] json by (simp add: reads_back_def)
    have kd: "keyDeps d = Inr ds"
      unfolding d_def using sh(3) by (simp add: keyDeps_aset)
    have str: "stringifyPkg L d (extname f) = Inr (JStr (JSON_stringify d @ [CHR 0x0A]))"
      using json by (simp add: stringifyPkg_def)
    have re: "parsePkg L (f\<lparr>content := JSON_stringify d @ [CHR 0x0A]\<rparr>)
                = Inr (parsed_pkg (JStr v) sv (semver_prerelease sv) ds d)"
      using json rd kd sv
      by (simp add: parsePkg_def semver_of_def d_def own_aset_same)
    have get: "getPackageFileVersion
             (PkgMinimum.extend (parsed_pkg (JStr v) sv (semver_prerelease sv) ds d)
                (PackageFile.fields (Some (f\<lparr>content := JSON_stringify d @ [CHR 0x0A]\<rparr>)) nick))
             ''version'' None = Inr (JStr v)"
      using json
      by (simp add: getPackageFileVersion_def parsed_pkg_def d_def own_aset_same)
    show ?thesis
      using st str re get fp np by (intro exI [of _ "p\<lparr>pkg := d\<rparr>"] exI conjI) simp_all
  next
    case toml
    from parsePkg_toml_shape [OF parse toml] obtain kvs pk s0 ds where
      sh: "pkg m = JObj kvs" "map_of kvs ''package'' = Some (JObj pk)"
          "map_of pk ''version'' = Some (JStr s0)" "keyDeps (JObj kvs) = Inr ds" by auto
    define d where "d = JObj (aset ''package'' (JObj (aset ''version'' (JStr v) pk)) kvs)"
    have st: "setPackageFileVersion p v ''version'' None = Inr (p\<lparr>pkg := d\<rparr>)"
      unfolding d_def using set_version_toml [OF fp toml _ sh(2)] pp sh(1) by simp
    from rb [OF st] toml obtain s where
      w: "TOML_stringify L d = Some s" and ne: "s \<noteq> []" and rd: "TOML_parse L s = Some d"
      by (auto simp add: reads_back_def split: option.splits)
    have kd: "keyDeps d = Inr ds"
      unfolding d_def using sh(4) by (simp add: keyDeps_aset)
    have str: "stringifyPkg L d (extname f) = Inr (JStr s)"
      using toml w by (simp add: stringifyPkg_def)
    have re: "parsePkg L (f\<lparr>content := s\<rparr>)
                = Inr (parsed_pkg (JStr v) sv (semver_prerelease sv) ds d)"
      using toml rd kd sv ne
      by (simp add: parsePkg_def semver_of_def d_def own_aset_same)
    have get: "getPackageFileVersion
             (PkgMinimum.extend (parsed_pkg (JStr v) sv (semver_prerelease sv) ds d)
                (PackageFile.fields (Some (f\<lparr>content := s\<rparr>)) nick))
             ''version'' None = Inr (JStr v)"
      using toml
      by (simp add: getPackageFileVersion_def parsed_pkg_def d_def own_aset_same)
    show ?thesis
      using st str re get fp np by (intro exI [of _ "p\<lparr>pkg := d\<rparr>"] exI conjI) simp_all
  next
    case yaml
    from parsePkg_yaml_shape [OF parse yaml] obtain kvs s0 ds where
      sh: "pkg m = JObj kvs" "map_of kvs ''version'' = Some (JStr s0)"
          "truthy (own kvs ''name'')" "keyDeps (JObj kvs) = Inr ds" by auto
    define d where "d = JObj (aset ''version'' (JStr v) kvs)"
    have nt: "extname f \<noteq> ''.toml''" "extname f \<noteq> ''.json''"
      using yaml by auto
    have st: "setPackageFileVersion p v ''version'' None = Inr (p\<lparr>pkg := d\<rparr>)"
      unfolding d_def using set_version_top [OF fp nt(1)] pp sh(1) by simp
    from rb [OF st] yaml nt obtain s where
      w: "yaml_dump L d = Some s" and ne: "s \<noteq> []" and rd: "yaml_load L s = Some d"
      by (auto simp add: reads_back_def split: option.splits)
    have kd: "keyDeps d = Inr ds"
      unfolding d_def using sh(4) by (simp add: keyDeps_aset)
    have str: "stringifyPkg L d (extname f) = Inr (JStr s)"
      using yaml nt w by (auto simp add: stringifyPkg_def)
    have re: "parsePkg L (f\<lparr>content := s\<rparr>) = Inr (parsed_pkg (JStr v) sv None ds d)"
      using yaml nt rd kd sv ne v(2) sh(3)
      by (auto simp add: parsePkg_def semver_of_def d_def own_aset_same own_aset_other)
    have get: "getPackageFileVersion
             (PkgMinimum.extend (parsed_pkg (JStr v) sv None ds d)
                (PackageFile.fields (Some (f\<lparr>content := s\<rparr>)) nick))
             ''version'' None = Inr (JStr v)"
      using yaml nt
      by (auto simp add: getPackageFileVersion_def parsed_pkg_def d_def own_aset_same)
    show ?thesis
      using st str re get fp np by (intro exI [of _ "p\<lparr>pkg := d\<rparr>"] exI conjI) simp_all
  next
    case bare
    have sh: "pkg m = JObj [(''name'', JStr []), (''version'', JStr (trim (content f)))]"
      using parsePkg_bare_shape [OF parse bare] .
    define d where "d = JObj [(''name'', JStr []), (''version'', JStr v)]"
    have nt: "extname f \<noteq> ''.toml''" "extname f \<noteq> ''.json''"
         "extname f \<noteq> ''.yml''" "extname f \<noteq> ''.yaml''"
      using bare by auto
    have st: "setPackageFileVersion p v ''version'' None = Inr (p\<lparr>pkg := d\<rparr>)"
      using set_version_top [OF fp nt(1), of _ v] pp sh by (simp add: d_def aset_def)
    have str: "stringifyPkg L d (extname f) = Inr (JStr v)"
      using nt by (simp add: stringifyPkg_def d_def own_def)
    have re: "parsePkg L (f\<lparr>content := v\<rparr>) = Inr (parsed_pkg (JStr v) sv None [] d)"
      using nt sv v(2,3)
      by (simp add: parsePkg_def semver_of_def semver_valid_def d_def)
    have get: "getPackageFileVersion
             (PkgMinimum.extend (parsed_pkg (JStr v) sv None [] d)
                (PackageFile.fields (Some (f\<lparr>content := v\<rparr>)) nick))
             ''version'' None = Inr (JStr v)"
      using nt by (simp add: getPackageFileVersion_def parsed_pkg_def d_def own_def)
    show ?thesis
      using st str re get fp np by (intro exI [of _ "p\<lparr>pkg := d\<rparr>"] exI conjI) simp_all
  qed
qed

lemma parsePkg_top_shape:
  assumes "parsePkg L f = Inr m" and "extname f \<noteq> ''.toml''"
  shows "\<exists>kvs x. pkg m = JObj kvs \<and> map_of kvs ''version'' = Some x"
proof -
  consider (json) "extname f = ''.json''"
    | (yaml) "extname f = ''.yml'' \<or> extname f = ''.yaml''"
    | (bare) "extname f \<notin> set [''.toml'', ''.json'', ''.yml'', ''.yaml'']"
    using assms(2) by auto
  then show ?thesis
  proof cases
    case json
    from parsePkg_json_shape [OF assms(1) json] show ?thesis by blast
  next
    case yaml
    from parsePkg_yaml_shape [OF assms(1) yaml] show ?thesis by blast
  next
    case bare
    from parsePkg_bare_shape [OF assms(1) bare] show ?thesis by simp
  qed
qed

text \<open>C1, as the code has it: for every loaded manifest, in each of the four encodings,
  setting the package version changes only the version-bearing member of the parsed
  document, the top-level \<open>version\<close> or, for TOML, \<open>version\<close> inside \<open>package\<close>: every
  other member keeps its key, its position and its value, and the other fields of the
  package file are unchanged. For a JSON manifest the text written is the two-space
  rendering of the updated document followed by a newline, whatever the layout of the
  original file.\<close>

theorem set_version_frame:
  assumes "readPkgFile L fs fl cfg nickname = Inr p"
  shows "\<exists>f kvs kvs'. file' p = Some f \<and> pkg p = JObj kvs
     \<and> setPackageFileVersion p v ''version'' None = Inr (p\<lparr>pkg := JObj kvs'\<rparr>)
     \<and> (if extname f = ''.toml''
        then same_but ''package'' kvs kvs'
             \<and> (\<exists>pk pk'. map_of kvs ''package'' = Some (JObj pk)
                    \<and> map_of kvs' ''package'' = Some (JObj pk')
                    \<and> same_but ''version'' pk pk')
        else same_but ''version'' kvs kvs')
     \<and> (extname f = ''.json'' \<longrightarrow>
          stringifyPkg L (JObj kvs') (extname f)
            = Inr (JStr (JSON_stringify (JObj kvs') @ [CHR 0x0A])))"
proof -
  from readPkgFile_path [of L fl cfg nickname] assms obtain pth where
    "read_at L fs pth nickname = Inr p" by auto
  then obtain c m where
    parse: "parsePkg L \<lparr> content = c, path = pth, filename = path_name pth, extname = path_ext pth \<rparr> = Inr m"
    and p: "p = PkgMinimum.extend m (PackageFile.fields
              (Some \<lparr> content = c, path = pth, filename = path_name pth, extname = path_ext pth \<rparr>) nickname)"
    by (auto simp add: read_at_eq_Inr)
  define f where "f = \<lparr> content = c, path = pth, filename = path_name pth, extname = path_ext pth \<rparr>"
  have fp: "file' p = Some f" and pp: "pkg p = pkg m"
    using p by (simp_all add: f_def)
  have js: "stringifyPkg L d ''.json'' = Inr (JStr (JSON_stringify d @ [CHR 0x0A]))" for d
    by (simp add: stringifyPkg_def)
  show ?thesis
  proof (cases "extname f = ''.toml''")
    case True
    from parsePkg_toml_shape [OF parse] True obtain kvs pk s0 where
      sh: "pkg m = JObj kvs" "map_of kvs ''package'' = Some (JObj pk)"
          "map_of pk ''version'' = Some (JStr s0)"
      by (auto simp add: f_def)
    let ?pk' = "aset ''version'' (JStr v) pk"
    let ?kvs' = "aset ''package'' (JObj ?pk') kvs"
    have "setPackageFileVersion p v ''version'' None = Inr (p\<lparr>pkg := JObj ?kvs'\<rparr>)"
      using set_version_toml [OF fp True _ sh(2)] pp sh(1) by simp
    moreover have "same_but ''package'' kvs ?kvs'"
      using sh(2) by (rule same_but_aset)
    moreover have "map_of ?kvs' ''package'' = Some (JObj ?pk')"
      by (rule map_of_aset_same)
    moreover have "same_but ''version'' pk ?pk'"
      using sh(3) by (rule same_but_aset)
    ultimately show ?thesis
      using fp pp sh(1,2) True by (intro exI [of _ f] exI [of _ kvs] exI [of _ ?kvs']) auto
  next
    case False
    from parsePkg_top_shape [OF parse] False obtain kvs x where
      sh: "pkg m = JObj kvs" "map_of kvs ''version'' = Some x"
      by (auto simp add: f_def)
    let ?kvs' = "aset ''version'' (JStr v) kvs"
    have "setPackageFileVersion p v ''version'' None = Inr (p\<lparr>pkg := JObj ?kvs'\<rparr>)"
      using set_version_top [OF fp False] pp sh(1) by simp
    moreover have "same_but ''version'' kvs ?kvs'"
      using sh(2) by (rule same_but_aset)
    ultimately show ?thesis
      using fp pp sh(1) False js
      by (intro exI [of _ f] exI [of _ kvs] exI [of _ ?kvs']) auto
  qed
qed

theorem set_version_frame_witness:
  "readPkgFile std_libs compact_repo None None ''app'' = Inr app_loaded
   \<and> (\<exists>f kvs kvs'. file' app_loaded = Some f \<and> pkg app_loaded = JObj kvs
     \<and> setPackageFileVersion app_loaded ''1.0.1'' ''version'' None
          = Inr (app_loaded\<lparr>pkg := JObj kvs'\<rparr>)
     \<and> (if extname f = ''.toml''
        then same_but ''package'' kvs kvs'
             \<and> (\<exists>pk pk'. map_of kvs ''package'' = Some (JObj pk)
                    \<and> map_of kvs' ''package'' = Some (JObj pk')
                    \<and> same_but ''version'' pk pk')
        else same_but ''version'' kvs kvs')
     \<and> (extname f = ''.json'' \<longrightarrow>
          stringifyPkg std_libs (JObj kvs') (extname f)
            = Inr (JStr (JSON_stringify (JObj kvs') @ [CHR 0x0A]))))"
proof -
  have h: "readPkgFile std_libs compact_repo None None ''app'' = Inr app_loaded"
    by code_simp
  show ?thesis
    using set_version_frame [OF h, of "''1.0.1''"] h by blast
qed

text \<open>C1 as stated fails on a JSON manifest written on one line: after the version is set
  and the file is written, the bytes of the member \<open>scripts\<close> of the original file occur
  nowhere in the new file.\<close>

theorem reformatted_counterexample:
  "set_and_write std_libs compact_repo None None ''app'' ''1.0.1''
     = Inr (app_file\<lparr>content := written_manifest\<rparr>, [(''package.json'', written_manifest)])
   \<and> contains_str scripts_member compact_manifest
   \<and> \<not> contains_str scripts_member written_manifest"
  by code_simp

text \<open>C2: for every loaded manifest, in each of the four encodings, and every valid
  version \<open>v\<close> (one the semver constructor accepts, not empty and without surrounding
  white space), setting the version to \<open>v\<close>, writing the file, reading it again and
  asking for the version gives exactly \<open>v\<close>, provided the JSON, TOML or YAML library reads
  back the document that it has written.\<close>

theorem version_round_trip:
  assumes "readPkgFile L fs fl cfg nickname = Inr p"
    and "semver L v \<noteq> None" and "v \<noteq> []" and "trim v = v"
    and "\<And>p'. setPackageFileVersion p v ''version'' None = Inr p'
            \<Longrightarrow> reads_back L (extname (the (file' p))) (pkg p')"
  shows "version_after_write L fs fl cfg nickname v = Inr (JStr v)"
proof -
  from readPkgFile_path [of L fl cfg nickname] obtain pth where
    rp: "\<And>fs. readPkgFile L fs fl cfg nickname = read_at L fs pth nickname" by auto
  define mk where "mk c = \<lparr> content = c, path = pth, filename = path_name pth, extname = path_ext pth \<rparr>" for c
  from assms(1) rp obtain c m where
    c: "map_of fs pth = Some c" and parse: "parsePkg L (mk c) = Inr m"
    and p: "p = PkgMinimum.extend m (PackageFile.fields (Some (mk c)) nickname)"
    by (auto simp add: read_at_eq_Inr mk_def)
  have rb: "\<And>p'. setPackageFileVersion p v ''version'' None = Inr p'
            \<Longrightarrow> reads_back L (extname (mk c)) (pkg p')"
    using assms(5) p by simp
  from round_trip_core [OF parse p assms(2-4) rb] obtain p' s m' where
    st: "setPackageFileVersion p v ''version'' None = Inr p'"
    and fp: "file' p' = Some (mk c)"
    and str: "stringifyPkg L (pkg p') (extname (mk c)) = Inr (JStr s)"
    and re: "parsePkg L ((mk c)\<lparr>content := s\<rparr>) = Inr m'"
    and get: "getPackageFileVersion
             (PkgMinimum.extend m' (PackageFile.fields (Some ((mk c)\<lparr>content := s\<rparr>)) nickname))
             ''version'' None = Inr (JStr v)"
    by blast
  have mks: "(mk c)\<lparr>content := s\<rparr> = mk s"
    by (simp add: mk_def)
  have wr: "writePkgFile L fs p' = Inr (mk s, aset pth s fs)"
    using fp str by (simp add: writePkgFile_def saveFile_def mks) (simp add: mk_def)
  have sw: "set_and_write L fs fl cfg nickname v = Inr (mk s, aset pth s fs)"
    using assms(1) st wr by (simp add: set_and_write_def)
  have rd: "readPkgFile L (aset pth s fs) fl cfg nickname
      = Inr (PkgMinimum.extend m' (PackageFile.fields (Some (mk s)) nickname))"
    using re by (simp add: rp read_at_def loadFile_def map_of_aset_same mks) (simp add: mk_def)
  show ?thesis
    using sw rd get by (simp add: version_after_write_def mks)
qed

theorem version_round_trip_witness:
  "readPkgFile std_libs compact_repo None None ''app'' = Inr app_loaded
   \<and> semver std_libs ''1.0.1'' \<noteq> None \<and> trim ''1.0.1'' = ''1.0.1''
   \<and> version_after_write std_libs compact_repo None None ''app'' ''1.0.1'' = Inr (JStr ''1.0.1'')
   \<and> readPkgFile std_libs version_repo (Some ''VERSION'') None ''general-package''
       = Inr version_loaded
   \<and> semver std_libs ''6.2.0'' \<noteq> None \<and> trim ''6.2.0'' = ''6.2.0''
   \<and> version_after_write std_libs version_repo (Some ''VERSION'') None ''general-package''
         ''6.2.0'' = Inr (JStr ''6.2.0'')"
proof -
  have h: "readPkgFile std_libs compact_repo None None ''app'' = Inr app_loaded"
    by code_simp
  have v: "semver std_libs ''1.0.1'' \<noteq> None" "''1.0.1'' \<noteq> []" "trim ''1.0.1'' = ''1.0.1''"
    by code_simp+
  have s: "setPackageFileVersion app_loaded ''1.0.1'' ''version'' None
             = Inr (app_loaded\<lparr>pkg := JObj (app_doc ''1.0.1'')\<rparr>)"
    by code_simp
  have r: "reads_back std_libs (extname (the (file' app_loaded))) (JObj (app_doc ''1.0.1''))"
    by code_simp
  have rb: "\<And>p'. setPackageFileVersion app_loaded ''1.0.1'' ''version'' None = Inr p'
            \<Longrightarrow> reads_back std_libs (extname (the (file' app_loaded))) (pkg p')"
    using r by (auto simp add: s)
  have h2: "readPkgFile std_libs version_repo (Some ''VERSION'') None ''general-package''
              = Inr version_loaded"
    by code_simp
  have v2: "semver std_libs ''6.2.0'' \<noteq> None" "''6.2.0'' \<noteq> []" "trim ''6.2.0'' = ''6.2.0''"
    by code_simp+
  have rb2: "\<And>p'. reads_back std_libs (extname (the (file' version_loaded))) (pkg p')"
    by (simp add: reads_back_def version_loaded_def version_file_def)
  show ?thesis
    using version_round_trip [OF h v rb] version_round_trip [OF h2 v2 rb2] h v h2 v2 by simp
qed

end
